theory Spec2Isabelle
  imports Main
begin

section \<open>Data model\<close>

text \<open>
  The plugin (bookshelf-entity) sits between libraries it does not contain: the host
  object model (Bookshelf: \<^verbatim>\<open>ModelBase\<close>, \<^verbatim>\<open>CollectionBase\<close>, \<^verbatim>\<open>load\<close>), the entity engine
  (json-entity: \<^verbatim>\<open>entity.represent\<close>) and lodash (\<^verbatim>\<open>has\<close>). They are parameters of the
  embedding (record \<open>externals\<close> below); everything between them is translated from the
  source.

  The repository holds its plugin in several historic states:
  \<^item> \<^verbatim>\<open>src/unnamed/part_001\<close>: \<^verbatim>\<open>detectRelationsToLoad\<close>, \<^verbatim>\<open>performSafetyCheck\<close>,
    \<^verbatim>\<open>present\<close>, \<^verbatim>\<open>represent\<close> for models and collections (no \<^verbatim>\<open>toJSON\<close> override);
  \<^item> \<^verbatim>\<open>src/index.js\<close>, lines 1-113 and 115-284: \<^verbatim>\<open>represent\<close> with the check written
    inline and not recursive, and the \<^verbatim>\<open>toJSON\<close> overrides with the \<^verbatim>\<open>entityRoot\<close> flag.
  Definitions taken from \<^verbatim>\<open>src/index.js\<close> carry the suffix \<open>_index\<close> where the name would
  clash with the one of \<^verbatim>\<open>part_001\<close>; the \<^verbatim>\<open>Collection.toJSON\<close> of lines 109-111 is
  \<open>Collection_toJSON_filter\<close>, the one of lines 265-282 is \<open>Collection_toJSON\<close>.
\<close>

text \<open>JavaScript values that are serialised. Numbers are integers here (no NaN).\<close>

datatype json =
    JUndefined
  | JNull
  | JBool bool
  | JNum int
  | JStr string
  | JArr "json list"
  | JObj "(string \<times> json) list"

text \<open>\<^verbatim>\<open>!!v\<close>, \<^verbatim>\<open>Boolean(v)\<close>: arrays and objects are truthy, also when empty.\<close>

fun truthy :: "json \<Rightarrow> bool" where
  "truthy JUndefined = False"
| "truthy JNull = False"
| "truthy (JBool b) = b"
| "truthy (JNum n) = (n \<noteq> 0)"
| "truthy (JStr s) = (s \<noteq> [])"
| "truthy (JArr xs) = True"
| "truthy (JObj kvs) = True"

text \<open>
  An entity as far as the plugin reads it: \<^verbatim>\<open>entity.properties\<close>, and of each property
  \<^verbatim>\<open>property.key\<close> and \<^verbatim>\<open>property.using\<close> (\<open>None\<close>: no \<^verbatim>\<open>using\<close> option). Specifications are
  finite trees.
\<close>

datatype entity = Entity (properties: "property list")
  and property = Property (key: string) (using_entity: "entity option")

text \<open>
  A host object. Of a model the plugin reads \<^verbatim>\<open>model.relations\<close> (the loaded relations,
  an object: an association list in key order, keys distinct), \<^verbatim>\<open>model[key]\<close> (\<open>members\<close>:
  the names whose property on the model object is truthy, such as the methods that
  define its relations), \<^verbatim>\<open>entitySafeMode\<close> and \<^verbatim>\<open>defaultEntity\<close>; \<open>attributes\<close> is what the
  host serialises. A loaded relation is a model or a collection. Of a collection the
  plugin reads \<^verbatim>\<open>this.models\<close>, \<^verbatim>\<open>this.model.prototype.entitySafeMode\<close> and
  \<^verbatim>\<open>this.model.prototype.defaultEntity\<close>; a collection has no \<^verbatim>\<open>relations\<close> property.
\<close>

datatype source =
    Model (attributes: "(string \<times> json) list")
          (relations: "(string \<times> source) list")
          (members: "string list")
          (entitySafeMode: bool)
          (defaultEntity: "entity option")
  | Collection (models: "source list")
          (proto_entitySafeMode: bool)
          (proto_defaultEntity: "entity option")

text \<open>
  \<^verbatim>\<open>new Error('Entity has an exposed relation "<relation>" that does not have a "using"
  option specified!')\<close> is \<open>UnsafeRelationExposure relation\<close>; \<open>TypeError\<close> is the
  engine's error on reading a property of \<^verbatim>\<open>undefined\<close>; \<open>HostError\<close> is whatever an
  external function throws or rejects with.
\<close>

datatype error = UnsafeRelationExposure string | TypeError | HostError string

text \<open>
  The options object. \<open>safe = None\<close>: the object has no \<^verbatim>\<open>safe\<close> property (which
  \<^verbatim>\<open>extend({ safe: false }, opts)\<close> tells apart from a property holding \<^verbatim>\<open>undefined\<close>);
  an absent \<^verbatim>\<open>shallow\<close> or \<^verbatim>\<open>entityRoot\<close> reads as \<open>JUndefined\<close>. \<open>flags\<close> are the
  user's own options. \<open>empty_options\<close> is \<^verbatim>\<open>{}\<close>.
\<close>

record options =
  entity_opt :: "entity option"
  with_opt :: "entity option"
  using_opt :: "entity option"
  shallow :: json
  safe :: "json option"
  entityRoot :: json
  flags :: "(string \<times> json) list"

definition empty_options :: options where
  "empty_options =
     \<lparr>entity_opt = None, with_opt = None, using_opt = None, shallow = JUndefined,
      safe = None, entityRoot = JUndefined, flags = []\<rparr>"

text \<open>
  \<^verbatim>\<open>isObject(options) ? options : {}\<close>: an argument is \<open>Some\<close> options object, or \<open>None\<close>
  for any value that is not an object (a missing argument is \<^verbatim>\<open>{}\<close> by the default
  parameter).
\<close>

definition ensure_object :: "options option \<Rightarrow> options" where
  "ensure_object options = (case options of Some opts0 \<Rightarrow> opts0 | None \<Rightarrow> empty_options)"

text \<open>
  The state a method call runs in: the receiver \<^verbatim>\<open>this\<close>, the options object the code
  works on (\<^verbatim>\<open>options\<close> in \<^verbatim>\<open>represent\<close>, \<^verbatim>\<open>opts\<close> in \<^verbatim>\<open>present\<close> and \<^verbatim>\<open>toJSON\<close>), and the log of
  the path lists handed to \<^verbatim>\<open>this.load\<close>.
\<close>

record state =
  this :: source
  opts :: options
  requested :: "string list list"

text \<open>
  The external functions. Each may throw (\<open>Inl\<close>) and may write to the objects it is
  given: \<^verbatim>\<open>ModelBase.prototype.toJSON.call(this, options)\<close> and
  \<^verbatim>\<open>CollectionBase.prototype.toJSON.call(this, options)\<close> get the receiver and the options,
  \<^verbatim>\<open>entity.represent(data, options)\<close> gets the options, \<^verbatim>\<open>this.load(relations)\<close> the receiver.
  \<^verbatim>\<open>has(model.relations, key)\<close> of lodash gets the object of the loaded relations and the
  key, which it reads as a property path when the key has path syntax (\<^verbatim>\<open>a.b\<close>, \<^verbatim>\<open>a[0]\<close>)
  and is not itself a key of the object.
\<close>

record externals =
  ModelBase_toJSON :: "source \<Rightarrow> options \<Rightarrow> (error + json) \<times> source \<times> options"
  CollectionBase_toJSON :: "source \<Rightarrow> options \<Rightarrow> (error + json list) \<times> source \<times> options"
  entity_represent :: "entity \<Rightarrow> json \<Rightarrow> options \<Rightarrow> (error + json) \<times> options"
  load :: "source \<Rightarrow> string list \<Rightarrow> error + source"
  lodash_has :: "(string \<times> source) list \<Rightarrow> string \<Rightarrow> bool"

text \<open>\<^verbatim>\<open>a || b\<close> on values that are an entity or absent.\<close>

definition js_or :: "'a option \<Rightarrow> 'a option \<Rightarrow> 'a option" where
  "js_or a b = (case a of Some x \<Rightarrow> Some x | None \<Rightarrow> b)"

section \<open>part_001: detection of relations to load, safety check\<close>

text \<open>
  \<^verbatim>\<open>detectRelationsToLoad(entity, model, prefix)\<close>, lines 22-38. \<open>detect_reduce\<close> is the
  \<^verbatim>\<open>reduce\<close> over \<^verbatim>\<open>entity.properties\<close> with its accumulator. The first argument is
  lodash's \<^verbatim>\<open>has\<close>, applied to \<^verbatim>\<open>model.relations\<close> and the key; the sub-object of the
  recursion is \<^verbatim>\<open>model.relations[key]\<close>, the plain property of that name. On a collection
  \<^verbatim>\<open>model.relations\<close> is \<^verbatim>\<open>undefined\<close>: \<^verbatim>\<open>has(undefined, key)\<close> is false and
  \<^verbatim>\<open>model.relations[key]\<close> reads a property of \<^verbatim>\<open>undefined\<close>, which throws.
\<close>

fun detectRelationsToLoad ::
    "((string \<times> source) list \<Rightarrow> string \<Rightarrow> bool) \<Rightarrow>
     entity option \<Rightarrow> source option \<Rightarrow> string \<Rightarrow> error + string list"
  and detect_reduce ::
    "((string \<times> source) list \<Rightarrow> string \<Rightarrow> bool) \<Rightarrow>
     property list \<Rightarrow> source option \<Rightarrow> string \<Rightarrow> string list \<Rightarrow> error + string list"
where
  "detectRelationsToLoad has None model prefix = Inr []"
| "detectRelationsToLoad has (Some (Entity ps)) model prefix =
     (case detect_reduce has ps model prefix [] of
        Inl err \<Rightarrow> Inl err
      | Inr acc \<Rightarrow> Inr (filter (\<lambda>s. s \<noteq> []) acc))"
| "detect_reduce has [] model prefix acc = Inr acc"
| "detect_reduce has (Property k None # ps) model prefix acc =
     detect_reduce has ps model prefix acc"
| "detect_reduce has (Property k (Some u) # ps) model prefix acc =
     (case model of
        None \<Rightarrow>
          (case detectRelationsToLoad has (Some u) None (prefix @ k @ ''.'') of
             Inl err \<Rightarrow> Inl err
           | Inr nested \<Rightarrow> detect_reduce has ps model prefix ((acc @ [prefix @ k]) @ nested))
      | Some (Model a rels ms sm de) \<Rightarrow>
          (case detectRelationsToLoad has (Some u) (map_of rels k) (prefix @ k @ ''.'') of
             Inl err \<Rightarrow> Inl err
           | Inr nested \<Rightarrow>
               detect_reduce has ps model prefix
                 ((if \<not> has rels k \<and> k \<in> set ms then acc @ [prefix @ k] else acc)
                    @ nested))
      | Some (Collection cs sm de) \<Rightarrow> Inl TypeError)"

text \<open>
  \<^verbatim>\<open>performSafetyCheck(entity, model)\<close>, lines 48-64: \<open>check_relations\<close> is the loop over
  \<^verbatim>\<open>Object.keys(model.relations || {})\<close> (with \<^verbatim>\<open>model.relations[relation]\<close> beside each key),
  \<open>check_properties\<close> the loop over \<^verbatim>\<open>entity.properties\<close>. A throw ends both loops.
\<close>

fun performSafetyCheck :: "entity \<Rightarrow> source \<Rightarrow> error + unit"
  and check_relations :: "property list \<Rightarrow> (string \<times> source) list \<Rightarrow> error + unit"
  and check_properties :: "property list \<Rightarrow> string \<Rightarrow> source \<Rightarrow> error + unit"
where
  "performSafetyCheck (Entity ps) (Model a rels ms sm de) = check_relations ps rels"
| "performSafetyCheck (Entity ps) (Collection cs sm de) = Inr ()"
| "check_relations ps [] = Inr ()"
| "check_relations ps ((relation, sub) # rels) =
     (case check_properties ps relation sub of
        Inl err \<Rightarrow> Inl err
      | Inr _ \<Rightarrow> check_relations ps rels)"
| "check_properties [] relation sub = Inr ()"
| "check_properties (Property k u # ps) relation sub =
     (if relation = k then
        (case u of
           None \<Rightarrow> Inl (UnsafeRelationExposure relation)
         | Some e \<Rightarrow>
             (case performSafetyCheck e sub of
                Inl err \<Rightarrow> Inl err
              | Inr _ \<Rightarrow> check_properties ps relation sub))
      else check_properties ps relation sub)"

text \<open>\<^verbatim>\<open>this.models.forEach(model => performSafetyCheck(entity, model))\<close>, line 198.\<close>

fun check_models :: "entity \<Rightarrow> source list \<Rightarrow> error + unit" where
  "check_models e [] = Inr ()"
| "check_models e (m # ms) =
     (case performSafetyCheck e m of
        Inl err \<Rightarrow> Inl err
      | Inr _ \<Rightarrow> check_models e ms)"

section \<open>Calls of the external functions\<close>

text \<open>\<^verbatim>\<open>ModelBase.prototype.toJSON.call(this, options)\<close>.\<close>

definition base_model_toJSON :: "externals \<Rightarrow> state \<Rightarrow> (error + json) \<times> state" where
  "base_model_toJSON X st =
     (case ModelBase_toJSON X (this st) (opts st) of
        (r, m, o1) \<Rightarrow> (r, st\<lparr>this := m, opts := o1\<rparr>))"

text \<open>\<^verbatim>\<open>CollectionBase.prototype.toJSON.call(this, options)\<close>.\<close>

definition base_collection_toJSON :: "externals \<Rightarrow> state \<Rightarrow> (error + json list) \<times> state" where
  "base_collection_toJSON X st =
     (case CollectionBase_toJSON X (this st) (opts st) of
        (r, c, o1) \<Rightarrow> (r, st\<lparr>this := c, opts := o1\<rparr>))"

text \<open>\<^verbatim>\<open>entity.represent(data, options)\<close>.\<close>

definition call_entity_represent ::
    "externals \<Rightarrow> entity \<Rightarrow> json \<Rightarrow> state \<Rightarrow> (error + json) \<times> state" where
  "call_entity_represent X e data st =
     (case entity_represent X e data (opts st) of
        (r, o1) \<Rightarrow> (r, st\<lparr>opts := o1\<rparr>))"

text \<open>
  \<^verbatim>\<open>entity.represent(ModelBase.prototype.toJSON.call(this, options), options)\<close>: the
  argument is evaluated first.
\<close>

definition entity_represent_model :: "externals \<Rightarrow> entity \<Rightarrow> state \<Rightarrow> (error + json) \<times> state" where
  "entity_represent_model X e st =
     (case base_model_toJSON X st of
        (Inl err, st1) \<Rightarrow> (Inl err, st1)
      | (Inr data, st1) \<Rightarrow> call_entity_represent X e data st1)"

text \<open>\<^verbatim>\<open>entity.represent(CollectionBase.prototype.toJSON.call(this, options), options)\<close>.\<close>

definition entity_represent_collection ::
    "externals \<Rightarrow> entity \<Rightarrow> state \<Rightarrow> (error + json) \<times> state" where
  "entity_represent_collection X e st =
     (case base_collection_toJSON X st of
        (Inl err, st1) \<Rightarrow> (Inl err, st1)
      | (Inr xs, st1) \<Rightarrow> call_entity_represent X e (JArr xs) st1)"

text \<open>
  \<^verbatim>\<open>this.load(relations)\<close>: the request is logged, then the host loads; a rejection
  leaves the receiver as it was.
\<close>

definition this_load :: "externals \<Rightarrow> string list \<Rightarrow> state \<Rightarrow> (error + unit) \<times> state" where
  "this_load X paths st =
     (case load X (this st) paths of
        Inl err \<Rightarrow> (Inl err, st\<lparr>requested := requested st @ [paths]\<rparr>)
      | Inr m \<Rightarrow> (Inr (), st\<lparr>this := m, requested := requested st @ [paths]\<rparr>))"

section \<open>part_001: represent and present\<close>

text \<open>\<^verbatim>\<open>Model.represent(entity, options)\<close>, lines 138-146.\<close>

definition Model_represent :: "externals \<Rightarrow> entity option \<Rightarrow> state \<Rightarrow> (error + json) \<times> state" where
  "Model_represent X entity st =
     (case entity of
        None \<Rightarrow> (Inr JUndefined, st)
      | Some e \<Rightarrow>
          (if entitySafeMode (this st) \<and> \<not> truthy (shallow (opts st)) then
             (case performSafetyCheck e (this st) of
                Inl err \<Rightarrow> (Inl err, st)
              | Inr _ \<Rightarrow> entity_represent_model X e st)
           else entity_represent_model X e st))"

text \<open>\<^verbatim>\<open>Collection.represent(entity, options)\<close>, lines 191-202.\<close>

definition Collection_represent ::
    "externals \<Rightarrow> entity option \<Rightarrow> state \<Rightarrow> (error + json) \<times> state" where
  "Collection_represent X entity st =
     (case entity of
        None \<Rightarrow> (Inr (JArr []), st)
      | Some e \<Rightarrow>
          (if proto_entitySafeMode (this st) \<and> \<not> truthy (shallow (opts st)) then
             (case check_models e (models (this st)) of
                Inl err \<Rightarrow> (Inl err, st)
              | Inr _ \<Rightarrow> entity_represent_collection X e st)
           else entity_represent_collection X e st))"

text \<open>
  \<^verbatim>\<open>extend({ safe: false }, opts)\<close>: a new object with the properties of \<^verbatim>\<open>opts\<close>, and
  \<^verbatim>\<open>safe: false\<close> where \<^verbatim>\<open>opts\<close> has no \<^verbatim>\<open>safe\<close>.
\<close>

definition extend_safe_false :: "options \<Rightarrow> options" where
  "extend_safe_false opts0 =
     opts0\<lparr>safe := (case safe opts0 of None \<Rightarrow> Some (JBool False) | Some v \<Rightarrow> Some v)\<rparr>"

text \<open>
  The promise chain of \<^verbatim>\<open>Model.present\<close>, lines 114-118, for the resolved entity: detect,
  load (an array is truthy, so \<^verbatim>\<open>this.load\<close> is always called), then represent with the
  extended copy of the options. A throw in a callback rejects the promise (\<open>Inl\<close>). The
  caller's options object is not the one \<^verbatim>\<open>represent\<close> gets.
\<close>

definition Model_present_chain :: "externals \<Rightarrow> entity \<Rightarrow> state \<Rightarrow> (error + json) \<times> state" where
  "Model_present_chain X e st =
     (case detectRelationsToLoad (lodash_has X) (Some e) (Some (this st)) [] of
        Inl err \<Rightarrow> (Inl err, st)
      | Inr paths \<Rightarrow>
          (case this_load X paths st of
             (Inl err, st1) \<Rightarrow> (Inl err, st1)
           | (Inr _, st1) \<Rightarrow>
               (case Model_represent X (Some e) (st1\<lparr>opts := extend_safe_false (opts st)\<rparr>) of
                  (r, st2) \<Rightarrow> (r, st2\<lparr>opts := opts st\<rparr>))))"

text \<open>\<^verbatim>\<open>Model.present(options)\<close>, lines 107-119.\<close>

definition Model_present ::
    "externals \<Rightarrow> options option \<Rightarrow> state \<Rightarrow> (error + json) \<times> state" where
  "Model_present X options st =
     (let st0 = st\<lparr>opts := ensure_object options\<rparr> in
      case js_or (js_or (js_or (entity_opt (opts st0)) (with_opt (opts st0)))
                    (using_opt (opts st0)))
             (defaultEntity (this st0)) of
        None \<Rightarrow> (Inr JUndefined, st0)
      | Some e \<Rightarrow> Model_present_chain X e st0)"

text \<open>\<^verbatim>\<open>this.first()\<close>.\<close>

definition first :: "source \<Rightarrow> source option" where
  "first c = (case models c of [] \<Rightarrow> None | m # ms \<Rightarrow> Some m)"

text \<open>The promise chain of \<^verbatim>\<open>Collection.present\<close>, lines 167-171.\<close>

definition Collection_present_chain ::
    "externals \<Rightarrow> entity \<Rightarrow> state \<Rightarrow> (error + json) \<times> state" where
  "Collection_present_chain X e st =
     (case detectRelationsToLoad (lodash_has X) (Some e) (first (this st)) [] of
        Inl err \<Rightarrow> (Inl err, st)
      | Inr paths \<Rightarrow>
          (case this_load X paths st of
             (Inl err, st1) \<Rightarrow> (Inl err, st1)
           | (Inr _, st1) \<Rightarrow>
               (case Collection_represent X (Some e)
                       (st1\<lparr>opts := extend_safe_false (opts st)\<rparr>) of
                  (r, st2) \<Rightarrow> (r, st2\<lparr>opts := opts st\<rparr>))))"

text \<open>\<^verbatim>\<open>Collection.present(options)\<close>, lines 160-172; \<^verbatim>\<open>this.size()\<close> counts the models.\<close>

definition Collection_present ::
    "externals \<Rightarrow> options option \<Rightarrow> state \<Rightarrow> (error + json) \<times> state" where
  "Collection_present X options st =
     (let st0 = st\<lparr>opts := ensure_object options\<rparr> in
      case js_or (js_or (js_or (entity_opt (opts st0)) (with_opt (opts st0)))
                    (using_opt (opts st0)))
             (proto_defaultEntity (this st0)) of
        None \<Rightarrow> (Inr (JArr []), st0)
      | Some e \<Rightarrow>
          (if length (models (this st0)) = 0 then (Inr (JArr []), st0)
           else Collection_present_chain X e st0))"

section \<open>index.js: represent with the inline check, toJSON\<close>

text \<open>
  The check of \<^verbatim>\<open>represent\<close> in \<^verbatim>\<open>src/index.js\<close> (lines 56-68 and 170-182, the same text): the
  loops over \<^verbatim>\<open>Object.keys(this.relations)\<close> and \<^verbatim>\<open>entity.properties\<close>, without recursion.
\<close>

fun inline_check_properties :: "property list \<Rightarrow> string \<Rightarrow> error + unit" where
  "inline_check_properties [] relation = Inr ()"
| "inline_check_properties (p # ps) relation =
     (if relation = key p \<and> using_entity p = None then Inl (UnsafeRelationExposure relation)
      else inline_check_properties ps relation)"

fun inline_check_relations :: "property list \<Rightarrow> string list \<Rightarrow> error + unit" where
  "inline_check_relations ps [] = Inr ()"
| "inline_check_relations ps (relation # rs) =
     (case inline_check_properties ps relation of
        Inl err \<Rightarrow> Inl err
      | Inr _ \<Rightarrow> inline_check_relations ps rs)"

text \<open>The loop over \<^verbatim>\<open>this.models\<close> around them, \<^verbatim>\<open>src/index.js\<close> lines 233-245.\<close>

fun inline_check_models :: "property list \<Rightarrow> source list \<Rightarrow> error + unit" where
  "inline_check_models ps [] = Inr ()"
| "inline_check_models ps (m # ms) =
     (case inline_check_relations ps (map fst (relations m)) of
        Inl err \<Rightarrow> Inl err
      | Inr _ \<Rightarrow> inline_check_models ps ms)"

text \<open>\<^verbatim>\<open>Model.represent\<close> of \<^verbatim>\<open>src/index.js\<close>, lines 52-71 (and 166-185).\<close>

definition Model_represent_index ::
    "externals \<Rightarrow> entity option \<Rightarrow> state \<Rightarrow> (error + json) \<times> state" where
  "Model_represent_index X entity st =
     (case entity of
        None \<Rightarrow> (Inr JUndefined, st)
      | Some e \<Rightarrow>
          (if entitySafeMode (this st) \<and> \<not> truthy (shallow (opts st)) then
             (case inline_check_relations (properties e) (map fst (relations (this st))) of
                Inl err \<Rightarrow> (Inl err, st)
              | Inr _ \<Rightarrow> entity_represent_model X e st)
           else entity_represent_model X e st))"

text \<open>\<^verbatim>\<open>Model.toJSON(options)\<close> of \<^verbatim>\<open>src/index.js\<close>, lines 83-100 (and 197-214).\<close>

definition Model_toJSON ::
    "externals \<Rightarrow> options option \<Rightarrow> state \<Rightarrow> (error + json) \<times> state" where
  "Model_toJSON X options st =
     (let st0 = st\<lparr>opts := ensure_object options\<rparr> in
      if \<not> truthy (entityRoot (opts st0)) then
        Model_represent_index X (js_or (entity_opt (opts st0)) (defaultEntity (this st0)))
          (st0\<lparr>opts := (opts st0)\<lparr>entityRoot := JBool True\<rparr>\<rparr>)
      else base_model_toJSON X st0)"

text \<open>
  \<^verbatim>\<open>Collection.toJSON(...args)\<close> of \<^verbatim>\<open>src/index.js\<close>, lines 109-111:
  \<^verbatim>\<open>CollectionBase.prototype.toJSON.apply(this, args).filter(model => !!model)\<close>. The
  arguments go to the base function as they are; the state holds the options among them.
\<close>

definition Collection_toJSON_filter :: "externals \<Rightarrow> state \<Rightarrow> (error + json) \<times> state" where
  "Collection_toJSON_filter X st =
     (case base_collection_toJSON X st of
        (Inl err, st1) \<Rightarrow> (Inl err, st1)
      | (Inr xs, st1) \<Rightarrow> (Inr (JArr (filter truthy xs)), st1))"

text \<open>\<^verbatim>\<open>Collection.represent\<close> of \<^verbatim>\<open>src/index.js\<close>, lines 226-254.\<close>

definition Collection_represent_index ::
    "externals \<Rightarrow> entity option \<Rightarrow> state \<Rightarrow> (error + json) \<times> state" where
  "Collection_represent_index X entity st =
     (case entity of
        None \<Rightarrow> (Inr (JArr []), st)
      | Some e \<Rightarrow>
          (case (if proto_entitySafeMode (this st) \<and> \<not> truthy (shallow (opts st))
                 then inline_check_models (properties e) (models (this st)) else Inr ()) of
             Inl err \<Rightarrow> (Inl err, st)
           | Inr _ \<Rightarrow>
               (case base_collection_toJSON X st of
                  (Inl err, st1) \<Rightarrow> (Inl err, st1)
                | (Inr xs, st1) \<Rightarrow> call_entity_represent X e (JArr (filter truthy xs)) st1)))"

text \<open>\<^verbatim>\<open>Collection.toJSON(options)\<close> of \<^verbatim>\<open>src/index.js\<close>, lines 265-282.\<close>

definition Collection_toJSON ::
    "externals \<Rightarrow> options option \<Rightarrow> state \<Rightarrow> (error + json) \<times> state" where
  "Collection_toJSON X options st =
     (let st0 = st\<lparr>opts := ensure_object options\<rparr> in
      if \<not> truthy (entityRoot (opts st0)) then
        Collection_represent_index X
          (js_or (entity_opt (opts st0)) (proto_defaultEntity (this st0)))
          (st0\<lparr>opts := (opts st0)\<lparr>entityRoot := JBool True\<rparr>\<rparr>)
      else
        (case base_collection_toJSON X st0 of
           (Inl err, st1) \<Rightarrow> (Inl err, st1)
         | (Inr xs, st1) \<Rightarrow> (Inr (JArr xs), st1)))"

section \<open>Specification-side definitions\<close>

text \<open>
  Safety check, by the specification's algorithm: every loaded relation of the source
  object that shares its name with a rule lacking \<^verbatim>\<open>using\<close> is an exposure; where the
  rule has \<^verbatim>\<open>using\<close>, the algorithm recurs "into the loaded sub-object(s) with the nested
  specification": into the loaded model, or into every model of a loaded collection.
  \<open>exposed_relations\<close> lists the exposures, in the order of the loaded relations and,
  for each, of the rules.
\<close>

fun exposed_relations :: "entity \<Rightarrow> source \<Rightarrow> string list" where
  "exposed_relations (Entity ps) (Model a rels ms sm de) =
     concat (map (\<lambda>(relation, sub).
        concat (map (\<lambda>p. if key p = relation
                           then (case using_entity p of
                                   None \<Rightarrow> [relation]
                                 | Some u \<Rightarrow> exposed_relations u sub)
                           else []) ps)) rels)"
| "exposed_relations (Entity ps) (Collection cs sm de) =
     concat (map (exposed_relations (Entity ps)) cs)"

text \<open>
  A source object without the models of its loaded collections, at every depth: what
  is left of it for a walk that reads \<^verbatim>\<open>model.relations || {}\<close>, which is \<^verbatim>\<open>{}\<close> on a
  collection.
\<close>

fun without_elements :: "source \<Rightarrow> source" where
  "without_elements (Model a rels ms sm de) =
     Model a (map (\<lambda>(k, sub). (k, without_elements sub)) rels) ms sm de"
| "without_elements (Collection cs sm de) = Collection [] sm de"

text \<open>
  The exposures that a walk through loaded models alone meets (a loaded collection is
  not entered); the proofs go through it.
\<close>

fun model_exposures :: "entity \<Rightarrow> source \<Rightarrow> string list" where
  "model_exposures (Entity ps) (Model a rels ms sm de) =
     concat (map (\<lambda>(relation, sub).
        concat (map (\<lambda>p. if key p = relation
                           then (case using_entity p of
                                   None \<Rightarrow> [relation]
                                 | Some u \<Rightarrow> model_exposures u sub)
                           else []) ps)) rels)"
| "model_exposures (Entity ps) (Collection cs sm de) = []"

text \<open>The error for the first exposure of a list, if there is one.\<close>

definition raise_first :: "string list \<Rightarrow> error + unit" where
  "raise_first rs = (case rs of [] \<Rightarrow> Inr () | r # _ \<Rightarrow> Inl (UnsafeRelationExposure r))"

text \<open>
  The condition of the specification's safety property, at the top level only: every
  loaded relation name is either absent from the entity's property keys or matched only
  by properties that have \<^verbatim>\<open>using\<close>.
\<close>

definition top_level_covered :: "entity \<Rightarrow> source \<Rightarrow> bool" where
  "top_level_covered e m =
     list_all (\<lambda>(relation, sub).
        list_all (\<lambda>p. key p = relation \<longrightarrow> using_entity p \<noteq> None) (properties e))
       (relations m)"

text \<open>
  The entity engine reads the data through the keys that the entity declares: two
  objects that agree on these keys are represented alike (no rule refers to any other
  key).
\<close>

definition reads_declared_only :: "externals \<Rightarrow> entity \<Rightarrow> bool" where
  "reads_declared_only X e \<longleftrightarrow>
     (\<forall>kvs kvs' o1.
        (\<forall>k \<in> key ` set (properties e). map_of kvs k = map_of kvs' k)
        \<longrightarrow> entity_represent X e (JObj kvs) o1 = entity_represent X e (JObj kvs') o1)"

text \<open>The relation named \<open>k\<close> is among the loaded relations.\<close>

definition own_key :: "(string \<times> source) list \<Rightarrow> string \<Rightarrow> bool" where
  "own_key rels k \<longleftrightarrow> map_of rels k \<noteq> None"

text \<open>
  Auto-load detection, by the specification's algorithm: for every rule with a nested
  \<^verbatim>\<open>using\<close> specification, the path \<open>pathPrefix @ key\<close> is added when the relation is not
  loaded on the source object (\<open>loaded\<close> is the test for that) and the object has a
  truthy property of that name (the specification's "the corresponding attribute exists
  (non-empty) on the object" is the code's \<^verbatim>\<open>model[key]\<close>); regardless, the nested
  specification is walked with the loaded sub-object (or none) and
  \<open>pathPrefix @ key @ ''.''\<close>. The flag \<open>absent_adds\<close> says what happens with no source
  object: the specification's words add nothing then (an absent object has no
  attribute), which is \<open>detectMissing\<close>.
\<close>

definition wanted ::
    "((string \<times> source) list \<Rightarrow> string \<Rightarrow> bool) \<Rightarrow> bool \<Rightarrow> source option \<Rightarrow> string \<Rightarrow> bool" where
  "wanted loaded absent_adds sourceObject k =
     (case sourceObject of
        None \<Rightarrow> absent_adds
      | Some (Model a rels ms sm de) \<Rightarrow> \<not> loaded rels k \<and> k \<in> set ms
      | Some (Collection cs sm de) \<Rightarrow> False)"

definition loaded_sub :: "source option \<Rightarrow> string \<Rightarrow> source option" where
  "loaded_sub sourceObject k =
     (case sourceObject of
        None \<Rightarrow> None
      | Some (Model a rels ms sm de) \<Rightarrow> map_of rels k
      | Some (Collection cs sm de) \<Rightarrow> None)"

fun detect_paths ::
    "((string \<times> source) list \<Rightarrow> string \<Rightarrow> bool) \<Rightarrow> bool \<Rightarrow>
     entity \<Rightarrow> source option \<Rightarrow> string \<Rightarrow> string list"
  and detect_rules ::
    "((string \<times> source) list \<Rightarrow> string \<Rightarrow> bool) \<Rightarrow> bool \<Rightarrow>
     property list \<Rightarrow> source option \<Rightarrow> string \<Rightarrow> string list"
where
  "detect_paths loaded absent_adds (Entity ps) sourceObject pathPrefix =
     detect_rules loaded absent_adds ps sourceObject pathPrefix"
| "detect_rules loaded absent_adds [] sourceObject pathPrefix = []"
| "detect_rules loaded absent_adds (Property k None # ps) sourceObject pathPrefix =
     detect_rules loaded absent_adds ps sourceObject pathPrefix"
| "detect_rules loaded absent_adds (Property k (Some nested) # ps) sourceObject pathPrefix =
     (if wanted loaded absent_adds sourceObject k then [pathPrefix @ k] else [])
     @ detect_paths loaded absent_adds nested (loaded_sub sourceObject k) (pathPrefix @ k @ ''.'')
     @ detect_rules loaded absent_adds ps sourceObject pathPrefix"

definition detectMissing :: "entity \<Rightarrow> source option \<Rightarrow> string \<Rightarrow> string list" where
  "detectMissing entitySpec sourceObject pathPrefix =
     detect_paths own_key False entitySpec sourceObject pathPrefix"

text \<open>
  The walk of the entity over the source object comes, with a rule that has \<^verbatim>\<open>using\<close>, to
  a collection (a loaded one-to-many relation whose nested entity has such a rule).
\<close>

fun reaches_collection :: "entity \<Rightarrow> source option \<Rightarrow> bool"
  and reaches_rules :: "property list \<Rightarrow> source option \<Rightarrow> bool"
where
  "reaches_collection (Entity ps) sourceObject = reaches_rules ps sourceObject"
| "reaches_rules [] sourceObject = False"
| "reaches_rules (Property k None # ps) sourceObject = reaches_rules ps sourceObject"
| "reaches_rules (Property k (Some nested) # ps) sourceObject =
     (case sourceObject of
        Some (Collection cs sm de) \<Rightarrow> True
      | _ \<Rightarrow> reaches_collection nested (loaded_sub sourceObject k)
             \<or> reaches_rules ps sourceObject)"

text \<open>"First non-empty wins" over a list of candidates.\<close>

fun first_non_empty :: "'a option list \<Rightarrow> 'a option" where
  "first_non_empty [] = None"
| "first_non_empty (None # cs) = first_non_empty cs"
| "first_non_empty (Some x # cs) = Some x"

text \<open>
  External functions that write nothing: the host's serialisation leaves the receiver
  and the options as they are, and the entity engine (with its \<^verbatim>\<open>if\<close> and \<^verbatim>\<open>value\<close>
  functions) leaves the options as they are.
\<close>

definition pure_externals :: "externals \<Rightarrow> bool" where
  "pure_externals X \<longleftrightarrow>
     (\<forall>m o1. snd (ModelBase_toJSON X m o1) = (m, o1))
     \<and> (\<forall>c o1. snd (CollectionBase_toJSON X c o1) = (c, o1))
     \<and> (\<forall>e d o1. snd (entity_represent X e d o1) = o1)"

section \<open>The libraries of the examples\<close>

text \<open>
  The theorems hold for all external functions. The examples run the plugin with the
  libraries it is written for, as far as the sources and the specification describe
  them.
\<close>

text \<open>\<^verbatim>\<open>object[k] = v\<close>: a key that is there keeps its place, a new key comes last.\<close>

fun set_key :: "string \<Rightarrow> json \<Rightarrow> (string \<times> json) list \<Rightarrow> (string \<times> json) list" where
  "set_key k v [] = [(k, v)]"
| "set_key k v ((k', v') # kvs) =
     (if k = k' then (k, v) # kvs else (k', v') # set_key k v kvs)"

text \<open>
  Modelled from the spec: the entity engine (\<^verbatim>\<open>represent\<close> of json-entity, which is not
  under \<^verbatim>\<open>src/\<close>), for rules that are a key with or without \<^verbatim>\<open>using\<close>. Section 4.2: a rule
  looks its key up in the data; with \<^verbatim>\<open>using\<close> the value is represented under the nested
  specification; a rule whose value is \<^verbatim>\<open>undefined\<close> is left out. Section 4.3: the rules
  are evaluated in declaration order into one mapping; a sequence is represented element
  by element, and elements whose result is empty or falsy are dropped. With
  \<^verbatim>\<open>safe: false\<close> a missing value is an error instead (\<^verbatim>\<open>part_001\<close>, lines 102-103: "an
  error will be thrown if the model is missing any attributes/relations that are
  supposed to be exposed"); the engine's safe mode is on unless the option is set and
  falsy.
\<close>

definition safe_mode :: "options \<Rightarrow> bool" where
  "safe_mode o1 = (case safe o1 of None \<Rightarrow> True | Some v \<Rightarrow> v = JUndefined \<or> truthy v)"

definition object_fields :: "json \<Rightarrow> (string \<times> json) list" where
  "object_fields d = (case d of JObj kvs \<Rightarrow> kvs | _ \<Rightarrow> [])"

fun represent_spec :: "bool \<Rightarrow> entity \<Rightarrow> json \<Rightarrow> error + json"
  and represent_items :: "bool \<Rightarrow> entity \<Rightarrow> json list \<Rightarrow> error + json list"
  and represent_rules ::
    "bool \<Rightarrow> property list \<Rightarrow> (string \<times> json) list \<Rightarrow> (string \<times> json) list \<Rightarrow>
     error + (string \<times> json) list"
where
  "represent_spec sf (Entity ps) (JArr xs) =
     (case represent_items sf (Entity ps) xs of
        Inl err \<Rightarrow> Inl err
      | Inr ys \<Rightarrow> Inr (JArr (filter (\<lambda>y. truthy y \<and> y \<noteq> JObj []) ys)))"
| "represent_spec sf (Entity ps) d =
     (case represent_rules sf ps (object_fields d) [] of
        Inl err \<Rightarrow> Inl err
      | Inr out \<Rightarrow> Inr (JObj out))"
| "represent_items sf e [] = Inr []"
| "represent_items sf e (x # xs) =
     (case represent_spec sf e x of
        Inl err \<Rightarrow> Inl err
      | Inr y \<Rightarrow>
          (case represent_items sf e xs of
             Inl err \<Rightarrow> Inl err
           | Inr ys \<Rightarrow> Inr (y # ys)))"
| "represent_rules sf [] kvs out = Inr out"
| "represent_rules sf (Property k u # ps) kvs out =
     (case (case map_of kvs k of
              None \<Rightarrow> Inr JUndefined
            | Some v \<Rightarrow> (case u of None \<Rightarrow> Inr v | Some nested \<Rightarrow> represent_spec sf nested v)) of
        Inl err \<Rightarrow> Inl err
      | Inr v \<Rightarrow>
          if v = JUndefined
          then (if sf then represent_rules sf ps kvs out else Inl (HostError k))
          else represent_rules sf ps kvs (set_key k v out))"

text \<open>
  Modelled from the spec: the serialisation of Bookshelf (\<^verbatim>\<open>ModelBase.prototype.toJSON\<close>,
  \<^verbatim>\<open>CollectionBase.prototype.toJSON\<close>, which are not under \<^verbatim>\<open>src/\<close>), as the sources
  describe it: the attributes of a model and, under its name, the serialisation of every
  loaded relation ("toJSON returns the full relation representation", \<^verbatim>\<open>src/index.js\<close>
  lines 40-41; "Bookshelf recursively calls toJSON on nested relations", lines 89-90);
  with \<^verbatim>\<open>shallow\<close> the attributes alone; of a collection the serialisation of each model.
  \<open>plain_serialize\<close> is this with Bookshelf's own \<^verbatim>\<open>toJSON\<close> on every object, which is the
  case in \<^verbatim>\<open>part_001\<close> (it overrides no \<^verbatim>\<open>toJSON\<close>), and in \<^verbatim>\<open>src/index.js\<close> whenever
  \<^verbatim>\<open>entityRoot\<close> is set (lines 97-99: the override then returns the base serialisation).
\<close>

fun plain_serialize :: "bool \<Rightarrow> source \<Rightarrow> json" where
  "plain_serialize sh (Model a rels ms sm de) =
     JObj (if sh then a else fold (\<lambda>(k, sub). set_key k (plain_serialize sh sub)) rels a)"
| "plain_serialize sh (Collection cs sm de) = JArr (map (plain_serialize sh) cs)"

text \<open>
  The libraries under \<^verbatim>\<open>part_001\<close>. \<^verbatim>\<open>has\<close> of lodash is the own-key test on a key without
  path syntax, as the keys of the examples are. \<^verbatim>\<open>load\<close> returns the receiver as it is,
  which is what loading an empty list of paths does; where an example requests other
  paths, it states the request and not what the database answers.
\<close>

definition bookshelf_host :: externals where
  "bookshelf_host =
     \<lparr>ModelBase_toJSON = (\<lambda>m o1. (Inr (plain_serialize (truthy (shallow o1)) m), m, o1)),
      CollectionBase_toJSON =
        (\<lambda>c o1. (Inr (map (plain_serialize (truthy (shallow o1))) (models c)), c, o1)),
      entity_represent = (\<lambda>e d o1. (represent_spec (safe_mode o1) e d, o1)),
      load = (\<lambda>m paths. Inr m),
      lodash_has = own_key\<rparr>"

text \<open>
  Modelled from the spec: the same serialisation of Bookshelf with the \<^verbatim>\<open>toJSON\<close> method
  of the related objects and of a collection's models as a parameter, called with the
  options object of the caller ("the shared options object", \<^verbatim>\<open>src/index.js\<close> lines
  257-261). A throw of the method ends the serialisation.
\<close>

fun bookshelf_relations ::
    "(source \<Rightarrow> options \<Rightarrow> (error + json) \<times> options) \<Rightarrow> (string \<times> source) list \<Rightarrow>
     (string \<times> json) list \<Rightarrow> options \<Rightarrow> (error + (string \<times> json) list) \<times> options" where
  "bookshelf_relations toJSON [] attrs o1 = (Inr attrs, o1)"
| "bookshelf_relations toJSON ((k, sub) # rels) attrs o1 =
     (case toJSON sub o1 of
        (Inl err, o2) \<Rightarrow> (Inl err, o2)
      | (Inr v, o2) \<Rightarrow> bookshelf_relations toJSON rels (set_key k v attrs) o2)"

definition bookshelf_model_toJSON ::
    "(source \<Rightarrow> options \<Rightarrow> (error + json) \<times> options) \<Rightarrow>
     source \<Rightarrow> options \<Rightarrow> (error + json) \<times> source \<times> options" where
  "bookshelf_model_toJSON toJSON m o1 =
     (if truthy (shallow o1) then (Inr (JObj (attributes m)), m, o1)
      else
        (case bookshelf_relations toJSON (relations m) (attributes m) o1 of
           (Inl err, o2) \<Rightarrow> (Inl err, m, o2)
         | (Inr kvs, o2) \<Rightarrow> (Inr (JObj kvs), m, o2)))"

fun bookshelf_models ::
    "(source \<Rightarrow> options \<Rightarrow> (error + json) \<times> options) \<Rightarrow> source list \<Rightarrow>
     options \<Rightarrow> (error + json list) \<times> options" where
  "bookshelf_models toJSON [] o1 = (Inr [], o1)"
| "bookshelf_models toJSON (m # ms) o1 =
     (case toJSON m o1 of
        (Inl err, o2) \<Rightarrow> (Inl err, o2)
      | (Inr v, o2) \<Rightarrow>
          (case bookshelf_models toJSON ms o2 of
             (Inl err, o3) \<Rightarrow> (Inl err, o3)
           | (Inr vs, o3) \<Rightarrow> (Inr (v # vs), o3)))"

definition bookshelf_collection_toJSON ::
    "(source \<Rightarrow> options \<Rightarrow> (error + json) \<times> options) \<Rightarrow>
     source \<Rightarrow> options \<Rightarrow> (error + json list) \<times> source \<times> options" where
  "bookshelf_collection_toJSON toJSON c o1 =
     (case bookshelf_models toJSON (models c) o1 of (r, o2) \<Rightarrow> (r, c, o2))"

text \<open>
  The libraries under \<^verbatim>\<open>src/index.js\<close>, lines 1-113, where the \<^verbatim>\<open>toJSON\<close> of a model is
  \<open>Model_toJSON\<close> and the one of a collection is \<open>Collection_toJSON_filter\<close>: the base
  functions call these on the related objects and on the models of a collection.
  \<open>Model_toJSON\<close> sets \<^verbatim>\<open>entityRoot\<close> before it calls the base function, so that the base
  function below it is \<open>plain_serialize\<close>.
\<close>

definition model_toJSON_index :: "source \<Rightarrow> options \<Rightarrow> (error + json) \<times> options" where
  "model_toJSON_index m o1 =
     (case Model_toJSON bookshelf_host (Some o1) \<lparr>this = m, opts = o1, requested = []\<rparr> of
        (r, st1) \<Rightarrow> (r, opts st1))"

definition collection_toJSON_index :: "source \<Rightarrow> options \<Rightarrow> (error + json) \<times> options" where
  "collection_toJSON_index c o1 =
     (case Collection_toJSON_filter
             (bookshelf_host\<lparr>CollectionBase_toJSON :=
                bookshelf_collection_toJSON model_toJSON_index\<rparr>)
             \<lparr>this = c, opts = o1, requested = []\<rparr> of
        (r, st1) \<Rightarrow> (r, opts st1))"

definition index_host :: externals where
  "index_host =
     bookshelf_host
       \<lparr>ModelBase_toJSON :=
          bookshelf_model_toJSON
            (\<lambda>sub o1. case sub of
                         Model a rels ms sm de \<Rightarrow> model_toJSON_index sub o1
                       | Collection cs sm de \<Rightarrow> collection_toJSON_index sub o1),
        CollectionBase_toJSON := bookshelf_collection_toJSON model_toJSON_index\<rparr>"

section \<open>Example objects\<close>

definition id_entity :: entity where
  "id_entity = Entity [Property ''id'' None]"

definition city_entity :: entity where
  "city_entity = Entity [Property ''name'' None]"

definition address_entity :: entity where
  "address_entity = Entity [Property ''street'' None, Property ''city'' (Some city_entity)]"

definition user_entity :: entity where
  "user_entity = Entity [Property ''id'' None, Property ''address'' (Some address_entity)]"

text \<open>Entities that expose a relation without \<^verbatim>\<open>using\<close>: at the top, and one level down.\<close>

definition user_entity_unsafe :: entity where
  "user_entity_unsafe = Entity [Property ''id'' None, Property ''address'' None]"

definition address_entity_unsafe :: entity where
  "address_entity_unsafe = Entity [Property ''street'' None, Property ''city'' None]"

definition user_entity_nested_unsafe :: entity where
  "user_entity_nested_unsafe =
     Entity [Property ''id'' None, Property ''address'' (Some address_entity_unsafe)]"

text \<open>An entity over a one-to-many relation, whose nested entity has no \<^verbatim>\<open>using\<close>.\<close>

definition post_entity :: entity where
  "post_entity = Entity [Property ''title'' None]"

definition user_posts_entity :: entity where
  "user_posts_entity = Entity [Property ''id'' None, Property ''posts'' (Some post_entity)]"

definition city_model :: source where
  "city_model = Model [(''name'', JStr ''Oslo'')] [] [] True None"

definition address_model :: source where
  "address_model =
     Model [(''street'', JStr ''Main'')] [(''city'', city_model)] [''city''] True None"

definition address_model_unloaded :: source where
  "address_model_unloaded = Model [(''street'', JStr ''Main'')] [] [''city''] True None"

definition user_model :: source where
  "user_model = Model [(''id'', JNum 1)] [(''address'', address_model)] [''address''] True None"

definition user_model_unloaded :: source where
  "user_model_unloaded = Model [(''id'', JNum 1)] [] [''address''] True None"

definition blank_model :: source where
  "blank_model = Model [] [] [] True None"

text \<open>A user with a second loaded relation, which \<open>user_entity\<close> does not declare.\<close>

definition account_model :: source where
  "account_model = Model [(''iban'', JStr ''NO93'')] [] [] True None"

definition user_model_account :: source where
  "user_model_account =
     Model [(''id'', JNum 1)] [(''address'', address_model), (''account'', account_model)]
       [''address'', ''account''] True None"

text \<open>
  Two users with the same attributes, an \<^verbatim>\<open>address\<close> column among them; the second has
  the relation \<^verbatim>\<open>address\<close> loaded as well.
\<close>

definition user_model_column :: source where
  "user_model_column =
     Model [(''id'', JNum 1), (''address'', JStr ''Main 1'')] [] [''address''] True None"

definition user_model_column_loaded :: source where
  "user_model_column_loaded =
     Model [(''id'', JNum 1), (''address'', JStr ''Main 1'')] [(''address'', address_model)]
       [''address''] True None"

text \<open>A user with a loaded one-to-many relation.\<close>

definition post_model :: source where
  "post_model = Model [(''title'', JStr ''Hello'')] [] [] True None"

definition user_model_posts :: source where
  "user_model_posts =
     Model [(''id'', JNum 1)] [(''posts'', Collection [post_model] True None)] [''posts'']
       True None"

definition users :: source where
  "users = Collection [user_model_unloaded, user_model] True (Some user_entity)"

definition blanks :: source where
  "blanks = Collection [blank_model, user_model_unloaded] True None"

definition user_state :: state where
  "user_state = \<lparr>this = user_model, opts = empty_options, requested = []\<rparr>"

definition user_state_safe_false :: state where
  "user_state_safe_false =
     \<lparr>this = user_model, opts = empty_options\<lparr>safe := Some (JBool False)\<rparr>, requested = []\<rparr>"

definition with_unsafe_options :: options where
  "with_unsafe_options = empty_options\<lparr>with_opt := Some user_entity_unsafe\<rparr>"

definition users_state :: state where
  "users_state = \<lparr>this = users, opts = empty_options, requested = []\<rparr>"

definition blanks_state :: state where
  "blanks_state = \<lparr>this = blanks, opts = empty_options, requested = []\<rparr>"

text \<open>The same collection, serialised with \<^verbatim>\<open>{ entity: id_entity }\<close>.\<close>

definition blanks_entity_state :: state where
  "blanks_entity_state =
     \<lparr>this = blanks, opts = empty_options\<lparr>entity_opt := Some id_entity\<rparr>, requested = []\<rparr>"

definition user_state_shallow :: state where
  "user_state_shallow =
     \<lparr>this = user_model, opts = empty_options\<lparr>shallow := JBool True\<rparr>, requested = []\<rparr>"

definition user_account_state :: state where
  "user_account_state = \<lparr>this = user_model_account, opts = empty_options, requested = []\<rparr>"

definition user_column_state :: state where
  "user_column_state = \<lparr>this = user_model_column, opts = empty_options, requested = []\<rparr>"

definition user_column_loaded_state :: state where
  "user_column_loaded_state =
     \<lparr>this = user_model_column_loaded, opts = empty_options, requested = []\<rparr>"

definition user_model_default :: source where
  "user_model_default = Model [(''id'', JNum 1)] [] [] True (Some id_entity)"

definition using_city_options :: options where
  "using_city_options = empty_options\<lparr>using_opt := Some city_entity\<rparr>"

definition user_default_state :: state where
  "user_default_state = \<lparr>this = user_model_default, opts = empty_options, requested = []\<rparr>"

definition users_other :: source where
  "users_other = Collection [user_model_unloaded, blank_model, city_model] True (Some user_entity)"

definition users_other_state :: state where
  "users_other_state = \<lparr>this = users_other, opts = empty_options, requested = []\<rparr>"

definition user_model_twin :: source where
  "user_model_twin =
     Model [(''id'', JNum 1)] [(''address'', address_model)] [] True (Some user_entity)"

definition user_twin_state :: state where
  "user_twin_state = \<lparr>this = user_model_twin, opts = empty_options, requested = []\<rparr>"

definition no_users_state :: state where
  "no_users_state =
     \<lparr>this = Collection [] True (Some user_entity), opts = empty_options, requested = []\<rparr>"

section \<open>Theorems\<close>

lemmas call_defs =
  base_model_toJSON_def base_collection_toJSON_def call_entity_represent_def
  entity_represent_model_def entity_represent_collection_def this_load_def

subsection \<open>The safety check raises for the first exposure\<close>

lemma raise_first_simps [simp]:
  "raise_first [] = Inr ()"
  "raise_first (r # rs) = Inl (UnsafeRelationExposure r)"
  by (simp_all add: raise_first_def)

lemma raise_first_append:
  "raise_first (xs @ ys) = (case raise_first xs of Inl err \<Rightarrow> Inl err | Inr _ \<Rightarrow> raise_first ys)"
  by (cases xs) simp_all

lemma check_exposed:
  "performSafetyCheck e m = raise_first (model_exposures e m)"
  "check_relations ps rels =
     raise_first (concat (map (\<lambda>(relation, sub).
        concat (map (\<lambda>p. if key p = relation
                           then (case using_entity p of
                                   None \<Rightarrow> [relation]
                                 | Some u \<Rightarrow> model_exposures u sub)
                           else []) ps)) rels))"
  "check_properties ps relation sub =
     raise_first (concat (map (\<lambda>p. if key p = relation
                           then (case using_entity p of
                                   None \<Rightarrow> [relation]
                                 | Some u \<Rightarrow> model_exposures u sub)
                           else []) ps))"
proof (induction e m and ps rels and ps relation sub
    rule: performSafetyCheck_check_relations_check_properties.induct)
  case (4 ps relation sub rels)
  then show ?case by (simp add: raise_first_append split: sum.splits)
next
  case (6 k u ps relation sub)
  then show ?case
    by (cases u) (simp_all add: raise_first_append split: sum.splits)
qed simp_all

lemma raise_first_Inl:
  "raise_first rs = Inl err \<longleftrightarrow> (\<exists>r rest. rs = r # rest \<and> err = UnsafeRelationExposure r)"
  by (cases rs) auto

lemma concat_map_nonempty:
  "x \<in> set xs \<Longrightarrow> f x \<noteq> [] \<Longrightarrow> concat (map f xs) \<noteq> []"
  by auto

lemma model_exposures_top_level:
  assumes "(k, sub) \<in> set rels" and "p \<in> set ps" and "key p = k"
    and "using_entity p = None"
  shows "model_exposures (Entity ps) (Model a rels ms sm de) \<noteq> []"
proof -
  let ?f = "\<lambda>sub p. if key p = k
       then (case using_entity p of None \<Rightarrow> [k] | Some u \<Rightarrow> model_exposures u sub)
       else []"
  have "?f sub p \<noteq> []"
    using assms by simp
  with assms(2) have "concat (map (?f sub) ps) \<noteq> []"
    by (rule concat_map_nonempty)
  then have "(\<lambda>(relation, sub).
        concat (map (\<lambda>p. if key p = relation
                           then (case using_entity p of
                                   None \<Rightarrow> [relation]
                                 | Some u \<Rightarrow> model_exposures u sub)
                           else []) ps)) (k, sub) \<noteq> []"
    by simp
  with assms(1) have "concat (map (\<lambda>(relation, sub).
        concat (map (\<lambda>p. if key p = relation
                           then (case using_entity p of
                                   None \<Rightarrow> [relation]
                                 | Some u \<Rightarrow> model_exposures u sub)
                           else []) ps)) rels) \<noteq> []"
    by (rule concat_map_nonempty)
  then show ?thesis by simp
qed

lemma model_exposures_nested:
  assumes "(k, sub) \<in> set rels" and "Property k (Some u) \<in> set ps"
    and "model_exposures u sub \<noteq> []"
  shows "model_exposures (Entity ps) (Model a rels ms sm de) \<noteq> []"
proof -
  let ?f = "\<lambda>sub p. if key p = k
       then (case using_entity p of None \<Rightarrow> [k] | Some u \<Rightarrow> model_exposures u sub)
       else []"
  have "?f sub (Property k (Some u)) \<noteq> []"
    using assms(3) by simp
  with assms(2) have "concat (map (?f sub) ps) \<noteq> []"
    by (rule concat_map_nonempty)
  then have "(\<lambda>(relation, sub).
        concat (map (\<lambda>p. if key p = relation
                           then (case using_entity p of
                                   None \<Rightarrow> [relation]
                                 | Some u \<Rightarrow> model_exposures u sub)
                           else []) ps)) (k, sub) \<noteq> []"
    by simp
  with assms(1) have "concat (map (\<lambda>(relation, sub).
        concat (map (\<lambda>p. if key p = relation
                           then (case using_entity p of
                                   None \<Rightarrow> [relation]
                                 | Some u \<Rightarrow> model_exposures u sub)
                           else []) ps)) rels) \<noteq> []"
    by (rule concat_map_nonempty)
  then show ?thesis by simp
qed

lemma model_exposures_undeclared:
  "model_exposures e (Model a rels ms sm de) =
   model_exposures e
     (Model a (filter (\<lambda>(k, sub). k \<in> key ` set (properties e)) rels) ms sm de)"
proof (cases e)
  case (Entity ps)
  have none: "concat (map (\<lambda>p. if key p = k
       then (case using_entity p of None \<Rightarrow> [k] | Some u \<Rightarrow> model_exposures u sub)
       else []) ps) = []" if "k \<notin> key ` set ps" for k sub
    using that by (induction ps) auto
  have "concat (map (\<lambda>(relation, sub).
        concat (map (\<lambda>p. if key p = relation
                           then (case using_entity p of
                                   None \<Rightarrow> [relation]
                                 | Some u \<Rightarrow> model_exposures u sub)
                           else []) ps)) rels) =
      concat (map (\<lambda>(relation, sub).
        concat (map (\<lambda>p. if key p = relation
                           then (case using_entity p of
                                   None \<Rightarrow> [relation]
                                 | Some u \<Rightarrow> model_exposures u sub)
                           else []) ps)) (filter (\<lambda>(k, sub). k \<in> key ` set ps) rels))"
  proof (induction rels)
    case Nil
    show ?case by simp
  next
    case (Cons r rels)
    obtain k sub where r: "r = (k, sub)" by (cases r)
    show ?case
    proof (cases "k \<in> key ` set ps")
      case True
      with Cons r show ?thesis by simp
    next
      case False
      with Cons r none[OF False, of sub] show ?thesis by simp
    qed
  qed
  with Entity show ?thesis by simp
qed

lemma model_exposures_without_elements:
  "model_exposures e m = exposed_relations e (without_elements m)"
proof (induction e m rule: model_exposures.induct)
  case (1 ps a rels ms sm de)
  have "(\<lambda>(relation, sub).
        concat (map (\<lambda>p. if key p = relation
                           then (case using_entity p of
                                   None \<Rightarrow> [relation]
                                 | Some u \<Rightarrow> model_exposures u sub)
                           else []) ps)) r =
      ((\<lambda>(relation, sub).
        concat (map (\<lambda>p. if key p = relation
                           then (case using_entity p of
                                   None \<Rightarrow> [relation]
                                 | Some u \<Rightarrow> exposed_relations u sub)
                           else []) ps)) \<circ> (\<lambda>(k, sub). (k, without_elements sub))) r"
    if "r \<in> set rels" for r
  proof -
    obtain k sub where r: "r = (k, sub)" by (cases r)
    have "(if key p = k
           then (case using_entity p of None \<Rightarrow> [k] | Some u \<Rightarrow> model_exposures u sub)
           else []) =
          (if key p = k
           then (case using_entity p of
                   None \<Rightarrow> [k]
                 | Some u \<Rightarrow> exposed_relations u (without_elements sub))
           else [])" if p: "p \<in> set ps" for p
    proof (cases "using_entity p")
      case None
      then show ?thesis by simp
    next
      case (Some u)
      have "model_exposures u sub = exposed_relations u (without_elements sub)"
        if "key p = k"
        using 1[OF \<open>r \<in> set rels\<close> r[symmetric] p that Some] .
      with Some show ?thesis by simp
    qed
    then show ?thesis
      using r by (simp cong: map_cong)
  qed
  then show ?case
    by (simp cong: map_cong)
next
  case (2 ps cs sm de)
  show ?case by simp
qed

lemma exposed_relations_none:
  "exposed_relations e m = [] \<Longrightarrow> model_exposures e m = []"
proof (induction e m rule: model_exposures.induct)
  case (1 ps a rels ms sm de)
  have "(if key p = k
         then (case using_entity p of None \<Rightarrow> [k] | Some u \<Rightarrow> model_exposures u sub)
         else []) = []" if "(k, sub) \<in> set rels" and "p \<in> set ps" for k sub p
  proof -
    from 1(2) that have e: "(if key p = k
         then (case using_entity p of None \<Rightarrow> [k] | Some u \<Rightarrow> exposed_relations u sub)
         else []) = []"
      by fastforce
    show ?thesis
    proof (cases "key p = k")
      case True
      show ?thesis
      proof (cases "using_entity p")
        case None
        with e True show ?thesis by simp
      next
        case (Some u)
        with e True have "exposed_relations u sub = []" by simp
        with 1(1)[OF that(1) refl that(2) True Some] Some True show ?thesis by simp
      qed
    next
      case False
      then show ?thesis by simp
    qed
  qed
  then show ?case by fastforce
next
  case (2 ps cs sm de)
  show ?case by simp
qed

text \<open>The engine of the examples reads the data through the declared keys.\<close>

lemma represent_rules_agree:
  "(\<forall>k \<in> key ` set ps. map_of kvs k = map_of kvs' k) \<Longrightarrow>
     represent_rules sf ps kvs out = represent_rules sf ps kvs' out"
proof (induction ps arbitrary: out)
  case Nil
  show ?case by simp
next
  case (Cons p ps)
  obtain k u where p: "p = Property k u" by (cases p)
  from Cons.prems p have k: "map_of kvs k = map_of kvs' k" by simp
  from Cons.prems have "\<forall>k \<in> key ` set ps. map_of kvs k = map_of kvs' k" by simp
  then have "represent_rules sf ps kvs out' = represent_rules sf ps kvs' out'" for out'
    by (rule Cons.IH)
  with p k show ?case by (cases sf) (simp_all split: sum.splits)
qed

lemma bookshelf_host_reads_declared_only:
  "reads_declared_only bookshelf_host e"
  unfolding reads_declared_only_def
proof (intro allI impI)
  fix kvs kvs' :: "(string \<times> json) list" and o1 :: options
  assume a: "\<forall>k \<in> key ` set (properties e). map_of kvs k = map_of kvs' k"
  obtain ps where e: "e = Entity ps" by (cases e)
  from a e have "represent_rules (safe_mode o1) ps kvs [] =
      represent_rules (safe_mode o1) ps kvs' []"
    by (intro represent_rules_agree) simp
  with e show "entity_represent bookshelf_host e (JObj kvs) o1 =
      entity_represent bookshelf_host e (JObj kvs') o1"
    by (simp add: bookshelf_host_def object_fields_def)
qed

text \<open>
  C1 (amended). With \<^verbatim>\<open>entitySafeMode\<close> enabled and no truthy \<^verbatim>\<open>shallow\<close>,
  \<^verbatim>\<open>Model.represent(E, options)\<close> raises the unsafe-relation error whenever a loaded relation
  of the model is named like a property of E without \<^verbatim>\<open>using\<close>; the error names the first
  exposure of the specification's algorithm on the model (taken without the models of
  its loaded collections), which may be one of a loaded sub-model. When the
  specification's algorithm finds no exposure at any depth, no error is raised and the
  model is serialised: it is not enough that the loaded relations of the model itself
  are covered. Loaded relations that E does not declare are never an error (dropping
  them leaves the exposures as they are) and are never exposed: where the engine reads
  the data through the declared keys and the host's serialisation with and without the
  undeclared relations agrees on these keys, the result is the one for the model
  without them.
\<close>

theorem safety_check_outcome:
  assumes "this st = Model a rels ms True de" and "\<not> truthy (shallow (opts st))"
  shows "Model_represent X (Some e) st =
           (case exposed_relations e (without_elements (this st)) of
              [] \<Rightarrow> entity_represent_model X e st
            | r # rest \<Rightarrow> (Inl (UnsafeRelationExposure r), st))
         \<and> ((\<exists>sub p. (k, sub) \<in> set rels \<and> p \<in> set (properties e) \<and> key p = k
                \<and> using_entity p = None)
              \<longrightarrow> (\<exists>r. Model_represent X (Some e) st = (Inl (UnsafeRelationExposure r), st)))
         \<and> (exposed_relations e (this st) = []
              \<longrightarrow> Model_represent X (Some e) st = entity_represent_model X e st)
         \<and> exposed_relations e (without_elements (this st)) =
             exposed_relations e
               (without_elements
                  (Model a (filter (\<lambda>(k, sub). k \<in> key ` set (properties e)) rels) ms True de))
         \<and> (reads_declared_only X e
              \<and> ModelBase_toJSON X (this st) (opts st) = (Inr (JObj kvs), m1, o1)
              \<and> ModelBase_toJSON X
                  (Model a (filter (\<lambda>(k, sub). k \<in> key ` set (properties e)) rels) ms True de)
                  (opts st) = (Inr (JObj kvs'), m1', o1)
              \<and> (\<forall>k \<in> key ` set (properties e). map_of kvs k = map_of kvs' k)
            \<longrightarrow> fst (Model_represent X (Some e) st) =
                  fst (Model_represent X (Some e)
                         (st\<lparr>this :=
                            Model a (filter (\<lambda>(k, sub). k \<in> key ` set (properties e)) rels)
                              ms True de\<rparr>)))"
proof -
  let ?m' = "Model a (filter (\<lambda>(k, sub). k \<in> key ` set (properties e)) rels) ms True de"
  have code: "Model_represent X (Some e) st' =
      (case model_exposures e (this st') of
         [] \<Rightarrow> entity_represent_model X e st'
       | r # rest \<Rightarrow> (Inl (UnsafeRelationExposure r), st'))"
    if "entitySafeMode (this st')" and "\<not> truthy (shallow (opts st'))" for st'
    using that
    by (simp add: Model_represent_def check_exposed(1) raise_first_def split: list.splits)
  have 1: "Model_represent X (Some e) st =
      (case exposed_relations e (without_elements (this st)) of
         [] \<Rightarrow> entity_represent_model X e st
       | r # rest \<Rightarrow> (Inl (UnsafeRelationExposure r), st))"
    using code[of st] assms by (simp add: model_exposures_without_elements)
  have 2: "\<exists>r. Model_represent X (Some e) st = (Inl (UnsafeRelationExposure r), st)"
    if "\<exists>sub p. (k, sub) \<in> set rels \<and> p \<in> set (properties e) \<and> key p = k
          \<and> using_entity p = None"
  proof -
    from that obtain sub p where "(k, sub) \<in> set rels" "p \<in> set (properties e)" "key p = k"
      "using_entity p = None"
      by blast
    then have "model_exposures e (this st) \<noteq> []"
      using assms(1) model_exposures_top_level[of k sub rels p "properties e" a ms True de]
      by (cases e) simp
    then obtain r rest where "model_exposures e (this st) = r # rest"
      by (cases "model_exposures e (this st)") auto
    with code[of st] assms show ?thesis by simp
  qed
  have 3: "Model_represent X (Some e) st = entity_represent_model X e st"
    if "exposed_relations e (this st) = []"
    using code[of st] assms exposed_relations_none[OF that] by simp
  have u: "model_exposures e (this st) = model_exposures e ?m'"
    using assms(1) model_exposures_undeclared by simp
  then have 4: "exposed_relations e (without_elements (this st)) =
      exposed_relations e (without_elements ?m')"
    by (simp only: model_exposures_without_elements)
  have 5: "fst (Model_represent X (Some e) st) =
      fst (Model_represent X (Some e) (st\<lparr>this := ?m'\<rparr>))"
    if h: "reads_declared_only X e
        \<and> ModelBase_toJSON X (this st) (opts st) = (Inr (JObj kvs), m1, o1)
        \<and> ModelBase_toJSON X ?m' (opts st) = (Inr (JObj kvs'), m1', o1)
        \<and> (\<forall>k \<in> key ` set (properties e). map_of kvs k = map_of kvs' k)"
  proof -
    from h have "entity_represent X e (JObj kvs) o1 = entity_represent X e (JObj kvs') o1"
      unfolding reads_declared_only_def by blast
    with h have "fst (entity_represent_model X e st) =
        fst (entity_represent_model X e (st\<lparr>this := ?m'\<rparr>))"
      by (simp add: call_defs split: prod.splits)
    moreover have "Model_represent X (Some e) (st\<lparr>this := ?m'\<rparr>) =
        (case model_exposures e ?m' of
           [] \<Rightarrow> entity_represent_model X e (st\<lparr>this := ?m'\<rparr>)
         | r # rest \<Rightarrow> (Inl (UnsafeRelationExposure r), st\<lparr>this := ?m'\<rparr>))"
      using code[of "st\<lparr>this := ?m'\<rparr>"] assms(2) by simp
    ultimately show ?thesis
      using code[of st] assms u by (simp split: list.splits)
  qed
  from 1 2 3 4 5 show ?thesis by blast
qed

theorem safety_check_outcome_witness:
  "Model_represent bookshelf_host (Some user_entity_unsafe) user_state =
     (Inl (UnsafeRelationExposure ''address''), user_state)
   \<and> Model_represent bookshelf_host (Some user_entity) user_state =
     (Inr (JObj [(''id'', JNum 1),
                 (''address'', JObj [(''street'', JStr ''Main''),
                                     (''city'', JObj [(''name'', JStr ''Oslo'')])])]),
      user_state)
   \<and> ModelBase_toJSON bookshelf_host (this user_account_state) (opts user_account_state) =
     (Inr (JObj [(''id'', JNum 1),
                 (''address'', JObj [(''street'', JStr ''Main''),
                                     (''city'', JObj [(''name'', JStr ''Oslo'')])]),
                 (''account'', JObj [(''iban'', JStr ''NO93'')])]),
      user_model_account, empty_options)
   \<and> fst (Model_represent bookshelf_host (Some user_entity) user_account_state) =
     Inr (JObj [(''id'', JNum 1),
                (''address'', JObj [(''street'', JStr ''Main''),
                                    (''city'', JObj [(''name'', JStr ''Oslo'')])])])"
proof -
  have m: "this user_state =
      Model [(''id'', JNum 1)] [(''address'', address_model)] [''address''] True None"
    by (simp add: user_state_def user_model_def)
  have s: "\<not> truthy (shallow (opts user_state))"
    by (simp add: user_state_def empty_options_def)
  have "\<exists>sub p. (''address'', sub) \<in> set [(''address'', address_model)]
      \<and> p \<in> set (properties user_entity_unsafe) \<and> key p = ''address''
      \<and> using_entity p = None"
    by (intro exI[of _ address_model] exI[of _ "Property ''address'' None"])
      (simp add: user_entity_unsafe_def)
  with safety_check_outcome[OF m s, of bookshelf_host user_entity_unsafe "''address''"]
  obtain r where r: "Model_represent bookshelf_host (Some user_entity_unsafe) user_state =
      (Inl (UnsafeRelationExposure r), user_state)"
    by blast
  have "exposed_relations user_entity_unsafe (without_elements (this user_state)) =
      [''address'']"
    by (simp add: user_entity_unsafe_def city_model_def address_model_def user_model_def
        user_state_def)
  moreover from safety_check_outcome[OF m s, of bookshelf_host user_entity_unsafe]
  have "Model_represent bookshelf_host (Some user_entity_unsafe) user_state =
      (case exposed_relations user_entity_unsafe (without_elements (this user_state)) of
         [] \<Rightarrow> entity_represent_model bookshelf_host user_entity_unsafe user_state
       | r # rest \<Rightarrow> (Inl (UnsafeRelationExposure r), user_state))"
    by blast
  ultimately have a: "Model_represent bookshelf_host (Some user_entity_unsafe) user_state =
      (Inl (UnsafeRelationExposure ''address''), user_state)"
    by simp
  have n: "exposed_relations user_entity (this user_state) = []"
    by (simp add: city_entity_def address_entity_def user_entity_def city_model_def
        address_model_def user_model_def user_state_def)
  from n safety_check_outcome[OF m s, of bookshelf_host user_entity]
  have "Model_represent bookshelf_host (Some user_entity) user_state =
      entity_represent_model bookshelf_host user_entity user_state"
    by blast
  also have "\<dots> =
      (Inr (JObj [(''id'', JNum 1),
                  (''address'', JObj [(''street'', JStr ''Main''),
                                      (''city'', JObj [(''name'', JStr ''Oslo'')])])]),
       user_state)"
    by (simp add: call_defs bookshelf_host_def safe_mode_def object_fields_def
        city_entity_def address_entity_def user_entity_def city_model_def
        address_model_def user_model_def user_state_def empty_options_def)
  finally have b: "Model_represent bookshelf_host (Some user_entity) user_state =
      (Inr (JObj [(''id'', JNum 1),
                  (''address'', JObj [(''street'', JStr ''Main''),
                                      (''city'', JObj [(''name'', JStr ''Oslo'')])])]),
       user_state)" .
  have m': "this user_account_state =
      Model [(''id'', JNum 1)] [(''address'', address_model), (''account'', account_model)]
        [''address'', ''account''] True None"
    by (simp add: user_account_state_def user_model_account_def)
  have s': "\<not> truthy (shallow (opts user_account_state))"
    by (simp add: user_account_state_def empty_options_def)
  have f: "filter (\<lambda>(k, sub). k \<in> key ` set (properties user_entity))
        [(''address'', address_model), (''account'', account_model)] =
      [(''address'', address_model)]"
    by (simp add: user_entity_def)
  have c: "ModelBase_toJSON bookshelf_host (this user_account_state)
        (opts user_account_state) =
      (Inr (JObj [(''id'', JNum 1),
                  (''address'', JObj [(''street'', JStr ''Main''),
                                      (''city'', JObj [(''name'', JStr ''Oslo'')])]),
                  (''account'', JObj [(''iban'', JStr ''NO93'')])]),
       user_model_account, empty_options)"
    by (simp add: bookshelf_host_def city_model_def address_model_def account_model_def
        user_model_account_def user_account_state_def empty_options_def)
  have c': "ModelBase_toJSON bookshelf_host
        (Model [(''id'', JNum 1)]
           (filter (\<lambda>(k, sub). k \<in> key ` set (properties user_entity))
              [(''address'', address_model), (''account'', account_model)])
           [''address'', ''account''] True None)
        (opts user_account_state) =
      (Inr (JObj [(''id'', JNum 1),
                  (''address'', JObj [(''street'', JStr ''Main''),
                                      (''city'', JObj [(''name'', JStr ''Oslo'')])])]),
       Model [(''id'', JNum 1)] [(''address'', address_model)] [''address'', ''account'']
         True None,
       empty_options)"
    unfolding f
    by (simp add: bookshelf_host_def city_model_def address_model_def
        user_account_state_def empty_options_def)
  have g: "\<forall>k \<in> key ` set (properties user_entity).
      map_of [(''id'', JNum 1),
              (''address'', JObj [(''street'', JStr ''Main''),
                                  (''city'', JObj [(''name'', JStr ''Oslo'')])]),
              (''account'', JObj [(''iban'', JStr ''NO93'')])] k =
      map_of [(''id'', JNum 1),
              (''address'', JObj [(''street'', JStr ''Main''),
                                  (''city'', JObj [(''name'', JStr ''Oslo'')])])] k"
    by (simp add: user_entity_def)
  from safety_check_outcome[OF m' s', of bookshelf_host user_entity]
    bookshelf_host_reads_declared_only[of user_entity] c c' g
  have "fst (Model_represent bookshelf_host (Some user_entity) user_account_state) =
      fst (Model_represent bookshelf_host (Some user_entity)
             (user_account_state\<lparr>this :=
                Model [(''id'', JNum 1)]
                  (filter (\<lambda>(k, sub). k \<in> key ` set (properties user_entity))
                     [(''address'', address_model), (''account'', account_model)])
                  [''address'', ''account''] True None\<rparr>))"
    by blast
  also have "\<dots> =
      Inr (JObj [(''id'', JNum 1),
                 (''address'', JObj [(''street'', JStr ''Main''),
                                     (''city'', JObj [(''name'', JStr ''Oslo'')])])])"
    unfolding f
    by (simp add: Model_represent_def call_defs bookshelf_host_def safe_mode_def
        object_fields_def city_entity_def address_entity_def user_entity_def city_model_def
        address_model_def user_account_state_def empty_options_def)
  finally have d: "fst (Model_represent bookshelf_host (Some user_entity) user_account_state) =
      Inr (JObj [(''id'', JNum 1),
                 (''address'', JObj [(''street'', JStr ''Main''),
                                     (''city'', JObj [(''name'', JStr ''Oslo'')])])])" .
  from a b c d show ?thesis by blast
qed

theorem safety_check_top_level_counterexample:
  "entitySafeMode (this user_state) \<and> \<not> truthy (shallow (opts user_state))
   \<and> top_level_covered user_entity_nested_unsafe (this user_state)
   \<and> Model_represent bookshelf_host (Some user_entity_nested_unsafe) user_state =
       (Inl (UnsafeRelationExposure ''city''), user_state)"
  by (simp add: Model_represent_def top_level_covered_def address_entity_unsafe_def
      user_entity_nested_unsafe_def city_model_def address_model_def user_model_def
      user_state_def empty_options_def)

text \<open>
  C4. The check is recursive through \<^verbatim>\<open>using\<close>: when the relation \<open>k\<close> is loaded with
  the sub-object \<open>sub\<close>, the entity has the property \<open>k\<close> with the nested entity \<open>u\<close>, and
  the check of \<open>sub\<close> against \<open>u\<close> raises, then the check of the model raises the
  unsafe-relation error.
\<close>

theorem safety_check_recursive:
  assumes "(k, sub) \<in> set rels" and "Property k (Some u) \<in> set ps"
    and "performSafetyCheck u sub = Inl err"
  shows "\<exists>r. performSafetyCheck (Entity ps) (Model a rels ms sm de) =
            Inl (UnsafeRelationExposure r)"
proof -
  from assms(3) have "model_exposures u sub \<noteq> []"
    by (auto simp: check_exposed(1) raise_first_Inl)
  with assms(1,2) have "model_exposures (Entity ps) (Model a rels ms sm de) \<noteq> []"
    by (rule model_exposures_nested)
  then obtain r rest where "model_exposures (Entity ps) (Model a rels ms sm de) = r # rest"
    by (cases "model_exposures (Entity ps) (Model a rels ms sm de)") auto
  then have "performSafetyCheck (Entity ps) (Model a rels ms sm de) =
      Inl (UnsafeRelationExposure r)"
    by (simp add: check_exposed(1))
  then show ?thesis ..
qed

theorem safety_check_recursive_witness:
  "performSafetyCheck address_entity_unsafe address_model = Inl (UnsafeRelationExposure ''city'')
   \<and> (\<exists>r. performSafetyCheck user_entity_nested_unsafe user_model =
            Inl (UnsafeRelationExposure r))"
proof -
  have 1: "(''address'', address_model) \<in> set [(''address'', address_model)]"
    by simp
  have 2: "Property ''address'' (Some address_entity_unsafe)
      \<in> set [Property ''id'' None, Property ''address'' (Some address_entity_unsafe)]"
    by simp
  have 3: "performSafetyCheck address_entity_unsafe address_model =
      Inl (UnsafeRelationExposure ''city'')"
    by (simp add: address_entity_unsafe_def user_entity_nested_unsafe_def city_model_def
      address_model_def user_model_def)
  show ?thesis
    using 3 safety_check_recursive[OF 1 2 3, of "[(''id'', JNum 1)]" "[''address'']" True None]
    by (simp add: user_entity_nested_unsafe_def user_model_def)
qed

text \<open>
  C2. Without an entity \<^verbatim>\<open>Model.represent\<close> returns \<^verbatim>\<open>undefined\<close> and
  \<^verbatim>\<open>Collection.represent\<close> returns \<^verbatim>\<open>[]\<close>, whatever the receiver, the options and the
  external functions are; no error is raised, nothing is serialised and nothing is
  written.
\<close>

theorem represent_without_entity:
  "Model_represent X None st = (Inr JUndefined, st)
   \<and> Collection_represent X None st = (Inr (JArr []), st)"
  by (simp add: Model_represent_def Collection_represent_def)

subsection \<open>Detection against the specification's algorithm\<close>

lemma detect_code:
  "detectRelationsToLoad has eo model prefix =
     (case eo of
        None \<Rightarrow> Inr []
      | Some e \<Rightarrow>
          if reaches_collection e model then Inl TypeError
          else Inr (filter (\<lambda>s. s \<noteq> []) (detect_paths has True e model prefix)))"
  "(reaches_rules ps model \<longrightarrow> detect_reduce has ps model prefix acc = Inl TypeError)
   \<and> (\<not> reaches_rules ps model \<longrightarrow>
        (\<exists>ys. detect_reduce has ps model prefix acc = Inr (acc @ ys)
           \<and> filter (\<lambda>s. s \<noteq> []) ys =
               filter (\<lambda>s. s \<noteq> []) (detect_rules has True ps model prefix)))"
proof (induction has eo model prefix and has ps model prefix acc
    rule: detectRelationsToLoad_detect_reduce.induct)
  case (1 has model prefix)
  then show ?case by simp
next
  case (2 has ps model prefix)
  show ?case
  proof (cases "reaches_rules ps model")
    case True
    with 2 show ?thesis by simp
  next
    case False
    with 2 obtain ys where "detect_reduce has ps model prefix [] = Inr ([] @ ys)"
      and "filter (\<lambda>s. s \<noteq> []) ys =
           filter (\<lambda>s. s \<noteq> []) (detect_rules has True ps model prefix)"
      by blast
    with False show ?thesis by simp
  qed
next
  case (3 has model prefix acc)
  then show ?case by simp
next
  case (4 has k ps model prefix acc)
  then show ?case by simp
next
  case (5 has k u ps model prefix acc)
  have step: ?case
    if n: "detectRelationsToLoad has (Some u) sub (prefix @ k @ ''.'') =
          (if reaches_collection u sub then Inl TypeError
           else Inr (filter (\<lambda>s. s \<noteq> [])
                       (detect_paths has True u sub (prefix @ k @ ''.''))))"
      and r: "detect_reduce has (Property k (Some u) # ps) model prefix acc =
          (case detectRelationsToLoad has (Some u) sub (prefix @ k @ ''.'') of
             Inl err \<Rightarrow> Inl err
           | Inr nested \<Rightarrow> detect_reduce has ps model prefix (acc' @ nested))"
      and a: "acc' = acc @ (if wanted has True model k then [prefix @ k] else [])"
      and l: "loaded_sub model k = sub"
      and c: "reaches_rules (Property k (Some u) # ps) model =
          (reaches_collection u sub \<or> reaches_rules ps model)"
      and ih: "\<And>nested. detectRelationsToLoad has (Some u) sub (prefix @ k @ ''.'') =
            Inr nested \<Longrightarrow>
          (reaches_rules ps model \<longrightarrow>
             detect_reduce has ps model prefix (acc' @ nested) = Inl TypeError)
          \<and> (\<not> reaches_rules ps model \<longrightarrow>
               (\<exists>ys. detect_reduce has ps model prefix (acc' @ nested) =
                        Inr ((acc' @ nested) @ ys)
                  \<and> filter (\<lambda>s. s \<noteq> []) ys =
                      filter (\<lambda>s. s \<noteq> []) (detect_rules has True ps model prefix)))"
    for sub acc'
  proof (cases "reaches_collection u sub")
    case True
    with n r c show ?thesis by simp
  next
    case False
    let ?nested = "filter (\<lambda>s. s \<noteq> []) (detect_paths has True u sub (prefix @ k @ ''.''))"
    from False n have n': "detectRelationsToLoad has (Some u) sub (prefix @ k @ ''.'') =
        Inr ?nested"
      by simp
    with r have r': "detect_reduce has (Property k (Some u) # ps) model prefix acc =
        detect_reduce has ps model prefix (acc' @ ?nested)"
      by simp
    show ?thesis
    proof (cases "reaches_rules ps model")
      case True
      with ih[OF n'] r' c show ?thesis by simp
    next
      case nr: False
      with ih[OF n'] obtain ys where
        "detect_reduce has ps model prefix (acc' @ ?nested) = Inr ((acc' @ ?nested) @ ys)"
        and "filter (\<lambda>s. s \<noteq> []) ys =
             filter (\<lambda>s. s \<noteq> []) (detect_rules has True ps model prefix)"
        by blast
      with r' a l c False nr show ?thesis
        by (simp del: detect_paths.simps detectRelationsToLoad.simps
            reaches_collection.simps)
    qed
  qed
  show ?case
  proof (cases model)
    case None
    show ?thesis
    proof (rule step[of None "acc @ [prefix @ k]"])
      show "detectRelationsToLoad has (Some u) None (prefix @ k @ ''.'') =
          (if reaches_collection u None then Inl TypeError
           else Inr (filter (\<lambda>s. s \<noteq> [])
                       (detect_paths has True u None (prefix @ k @ ''.''))))"
        using 5(1)[OF None] by simp
      show "detect_reduce has (Property k (Some u) # ps) model prefix acc =
          (case detectRelationsToLoad has (Some u) None (prefix @ k @ ''.'') of
             Inl err \<Rightarrow> Inl err
           | Inr nested \<Rightarrow>
               detect_reduce has ps model prefix ((acc @ [prefix @ k]) @ nested))"
        unfolding None by (simp del: detectRelationsToLoad.simps)
      show "acc @ [prefix @ k] =
          acc @ (if wanted has True model k then [prefix @ k] else [])"
        using None by (simp add: wanted_def)
      show "loaded_sub model k = None"
        using None by (simp add: loaded_sub_def)
      show "reaches_rules (Property k (Some u) # ps) model =
          (reaches_collection u None \<or> reaches_rules ps model)"
        using None by (simp add: loaded_sub_def del: reaches_collection.simps)
      show "(reaches_rules ps model \<longrightarrow>
             detect_reduce has ps model prefix ((acc @ [prefix @ k]) @ nested) =
               Inl TypeError)
          \<and> (\<not> reaches_rules ps model \<longrightarrow>
               (\<exists>ys. detect_reduce has ps model prefix ((acc @ [prefix @ k]) @ nested) =
                        Inr (((acc @ [prefix @ k]) @ nested) @ ys)
                  \<and> filter (\<lambda>s. s \<noteq> []) ys =
                      filter (\<lambda>s. s \<noteq> []) (detect_rules has True ps model prefix)))"
        if "detectRelationsToLoad has (Some u) None (prefix @ k @ ''.'') = Inr nested"
        for nested
        using 5(2)[OF None that] .
    qed
  next
    case (Some m)
    show ?thesis
    proof (cases m)
      case (Model a rels ms sm de)
      show ?thesis
      proof (rule step[of "map_of rels k"
            "if \<not> has rels k \<and> k \<in> set ms then acc @ [prefix @ k] else acc"])
        show "detectRelationsToLoad has (Some u) (map_of rels k) (prefix @ k @ ''.'') =
            (if reaches_collection u (map_of rels k) then Inl TypeError
             else Inr (filter (\<lambda>s. s \<noteq> [])
                         (detect_paths has True u (map_of rels k) (prefix @ k @ ''.''))))"
          using 5(3)[OF Some Model] by simp
        show "detect_reduce has (Property k (Some u) # ps) model prefix acc =
            (case detectRelationsToLoad has (Some u) (map_of rels k) (prefix @ k @ ''.'') of
               Inl err \<Rightarrow> Inl err
             | Inr nested \<Rightarrow>
                 detect_reduce has ps model prefix
                   ((if \<not> has rels k \<and> k \<in> set ms then acc @ [prefix @ k] else acc)
                      @ nested))"
          unfolding Some Model by (simp del: detectRelationsToLoad.simps)
        show "(if \<not> has rels k \<and> k \<in> set ms then acc @ [prefix @ k] else acc) =
            acc @ (if wanted has True model k then [prefix @ k] else [])"
          using Some Model by (simp add: wanted_def)
        show "loaded_sub model k = map_of rels k"
          using Some Model by (simp add: loaded_sub_def)
        show "reaches_rules (Property k (Some u) # ps) model =
            (reaches_collection u (map_of rels k) \<or> reaches_rules ps model)"
          using Some Model by (simp add: loaded_sub_def del: reaches_collection.simps)
        show "(reaches_rules ps model \<longrightarrow>
               detect_reduce has ps model prefix
                 ((if \<not> has rels k \<and> k \<in> set ms then acc @ [prefix @ k] else acc)
                    @ nested) = Inl TypeError)
            \<and> (\<not> reaches_rules ps model \<longrightarrow>
                 (\<exists>ys. detect_reduce has ps model prefix
                          ((if \<not> has rels k \<and> k \<in> set ms then acc @ [prefix @ k] else acc)
                             @ nested) =
                          Inr (((if \<not> has rels k \<and> k \<in> set ms then acc @ [prefix @ k]
                                 else acc) @ nested) @ ys)
                    \<and> filter (\<lambda>s. s \<noteq> []) ys =
                        filter (\<lambda>s. s \<noteq> []) (detect_rules has True ps model prefix)))"
          if "detectRelationsToLoad has (Some u) (map_of rels k) (prefix @ k @ ''.'') =
              Inr nested"
          for nested
          using 5(4)[OF Some Model that] .
      qed
    next
      case (Collection cs sm de)
      with Some show ?thesis by simp
    qed
  qed
qed

text \<open>
  C5 (amended). Where the walk of E over M applies no rule with \<^verbatim>\<open>using\<close> to a
  collection, \<^verbatim>\<open>detectRelationsToLoad(E, M, prefix)\<close> returns the paths of the
  specification's algorithm with two changes: "not already loaded" is lodash's
  \<^verbatim>\<open>has(M.relations, key)\<close> being false, and with no source object the path of every rule
  with \<^verbatim>\<open>using\<close> is added. So for each property of E with \<^verbatim>\<open>using\<close>, \<open>prefix @ key\<close> is
  included when M is absent, or when \<^verbatim>\<open>has(M.relations, key)\<close> is false and \<^verbatim>\<open>M[key]\<close> is
  truthy; the nested entity is walked with the loaded sub-object \<^verbatim>\<open>M.relations[key]\<close> (or
  none) and \<open>prefix @ key @ ''.''\<close>; empty paths are dropped.
\<close>

theorem detectRelationsToLoad_paths:
  assumes "\<not> reaches_collection e model"
  shows "detectRelationsToLoad has (Some e) model prefix =
           Inr (filter (\<lambda>s. s \<noteq> []) (detect_paths has True e model prefix))"
  using detect_code(1)[of has "Some e" model prefix] assms by simp

theorem detectRelationsToLoad_paths_witness:
  "\<not> reaches_collection user_entity (Some user_model_unloaded)
   \<and> detectRelationsToLoad own_key (Some user_entity) (Some user_model_unloaded) [] =
       Inr [''address'', ''address.city'']
   \<and> detectRelationsToLoad own_key (Some address_entity) (Some address_model_unloaded)
       ''address.'' = Inr [''address.city'']
   \<and> detectRelationsToLoad own_key (Some user_entity) (Some user_model) [] = Inr []
   \<and> \<not> reaches_collection user_posts_entity (Some user_model_posts)
   \<and> detectRelationsToLoad own_key (Some user_posts_entity) (Some user_model_posts) [] =
       Inr []"
proof -
  have 1: "\<not> reaches_collection user_entity (Some user_model_unloaded)"
    by (simp add: loaded_sub_def city_entity_def address_entity_def user_entity_def
        user_model_unloaded_def)
  have 2: "\<not> reaches_collection address_entity (Some address_model_unloaded)"
    by (simp add: loaded_sub_def city_entity_def address_entity_def
        address_model_unloaded_def)
  have 3: "\<not> reaches_collection user_entity (Some user_model)"
    by (simp add: loaded_sub_def city_entity_def address_entity_def user_entity_def
        city_model_def address_model_def user_model_def)
  have 4: "\<not> reaches_collection user_posts_entity (Some user_model_posts)"
    by (simp add: loaded_sub_def post_entity_def user_posts_entity_def post_model_def
        user_model_posts_def)
  have "detect_paths own_key True user_entity (Some user_model_unloaded) [] =
      [''address'', ''address.city'']"
    by (simp add: wanted_def loaded_sub_def own_key_def city_entity_def address_entity_def
        user_entity_def user_model_unloaded_def)
  with detectRelationsToLoad_paths[OF 1, of own_key "[]"]
  have a: "detectRelationsToLoad own_key (Some user_entity) (Some user_model_unloaded) [] =
      Inr [''address'', ''address.city'']"
    by simp
  have "detect_paths own_key True address_entity (Some address_model_unloaded) ''address.'' =
      [''address.city'']"
    by (simp add: wanted_def loaded_sub_def own_key_def city_entity_def address_entity_def
        address_model_unloaded_def)
  with detectRelationsToLoad_paths[OF 2, of own_key "''address.''"]
  have b: "detectRelationsToLoad own_key (Some address_entity) (Some address_model_unloaded)
      ''address.'' = Inr [''address.city'']"
    by simp
  have "detect_paths own_key True user_entity (Some user_model) [] = []"
    by (simp add: wanted_def loaded_sub_def own_key_def city_entity_def address_entity_def
        user_entity_def city_model_def address_model_def user_model_def)
  with detectRelationsToLoad_paths[OF 3, of own_key "[]"]
  have c: "detectRelationsToLoad own_key (Some user_entity) (Some user_model) [] = Inr []"
    by simp
  have "detect_paths own_key True user_posts_entity (Some user_model_posts) [] = []"
    by (simp add: wanted_def loaded_sub_def own_key_def post_entity_def
        user_posts_entity_def post_model_def user_model_posts_def)
  with detectRelationsToLoad_paths[OF 4, of own_key "[]"]
  have d: "detectRelationsToLoad own_key (Some user_posts_entity) (Some user_model_posts) [] =
      Inr []"
    by simp
  from 1 a b c 4 d show ?thesis by blast
qed

theorem detectRelationsToLoad_spec_counterexample:
  "detectMissing user_entity (Some user_model_unloaded) [] = [''address'']
   \<and> detectRelationsToLoad own_key (Some user_entity) (Some user_model_unloaded) [] =
       Inr [''address'', ''address.city'']"
  by (simp add: detectMissing_def wanted_def loaded_sub_def own_key_def city_entity_def
      address_entity_def user_entity_def user_model_unloaded_def)

subsection \<open>What the calls leave unchanged\<close>

lemma requested_entity_represent_model:
  "requested (snd (entity_represent_model X e st)) = requested st"
  by (simp add: call_defs split: prod.splits sum.splits)

lemma requested_entity_represent_collection:
  "requested (snd (entity_represent_collection X e st)) = requested st"
  by (simp add: call_defs split: prod.splits sum.splits)

lemma requested_Collection_represent:
  "requested (snd (Collection_represent X entity st)) = requested st"
  by (simp add: Collection_represent_def requested_entity_represent_collection
      split: option.splits sum.splits)

lemma pure_base_model_toJSON:
  assumes "pure_externals X"
  shows "snd (base_model_toJSON X st) = st"
proof -
  from assms have "snd (ModelBase_toJSON X (this st) (opts st)) = (this st, opts st)"
    by (simp add: pure_externals_def)
  then show ?thesis
    by (cases "ModelBase_toJSON X (this st) (opts st)") (simp add: base_model_toJSON_def)
qed

lemma pure_base_collection_toJSON:
  assumes "pure_externals X"
  shows "snd (base_collection_toJSON X st) = st"
proof -
  from assms have "snd (CollectionBase_toJSON X (this st) (opts st)) = (this st, opts st)"
    by (simp add: pure_externals_def)
  then show ?thesis
    by (cases "CollectionBase_toJSON X (this st) (opts st)")
      (simp add: base_collection_toJSON_def)
qed

lemma pure_call_entity_represent:
  assumes "pure_externals X"
  shows "snd (call_entity_represent X e d st) = st"
proof -
  from assms have "snd (entity_represent X e d (opts st)) = opts st"
    by (simp add: pure_externals_def)
  then show ?thesis
    by (cases "entity_represent X e d (opts st)") (simp add: call_entity_represent_def)
qed

lemma pure_entity_represent_model:
  assumes "pure_externals X"
  shows "snd (entity_represent_model X e st) = st"
proof (cases "base_model_toJSON X st")
  case (Pair r st1)
  with pure_base_model_toJSON[OF assms, of st] have "st1 = st" by simp
  with Pair show ?thesis
    by (cases r) (simp_all add: entity_represent_model_def pure_call_entity_represent[OF assms])
qed

lemma pure_Model_represent:
  assumes "pure_externals X"
  shows "snd (Model_represent X entity st) = st"
  by (simp add: Model_represent_def pure_entity_represent_model[OF assms]
      split: option.splits sum.splits)

lemma pure_Model_represent_index:
  assumes "pure_externals X"
  shows "snd (Model_represent_index X entity st) = st"
  by (simp add: Model_represent_index_def pure_entity_represent_model[OF assms]
      split: option.splits sum.splits)

lemma pure_entity_represent_model_fst:
  assumes "pure_externals X"
  shows "fst (entity_represent_model X e st) =
     (case fst (ModelBase_toJSON X (this st) (opts st)) of
        Inl err \<Rightarrow> Inl err
      | Inr data \<Rightarrow> fst (entity_represent X e data (opts st)))"
proof -
  from assms have "snd (ModelBase_toJSON X (this st) (opts st)) = (this st, opts st)"
    by (simp add: pure_externals_def)
  then show ?thesis
    by (cases "ModelBase_toJSON X (this st) (opts st)")
      (auto simp: call_defs split: sum.splits prod.splits)
qed

lemma performSafetyCheck_relations:
  "performSafetyCheck e (Model a rels ms sm de) = performSafetyCheck e (Model a' rels ms' sm' de')"
  by (cases e) simp

lemma js_or_first_of_two:
  "js_or a b = first_non_empty [a, b]"
  by (cases a; cases b; simp add: js_or_def)

lemma js_or_first_of_four:
  "js_or (js_or (js_or a b) c) d = first_non_empty [a, b, c, d]"
  by (cases a; cases b; cases c; cases d; simp add: js_or_def)

subsection \<open>The libraries under the overrides of \<^verbatim>\<open>src/index.js\<close>\<close>

text \<open>
  With \<^verbatim>\<open>entityRoot\<close> set, the \<^verbatim>\<open>toJSON\<close> of every related object returns the base
  serialisation, so that the base serialisation of a model under \<^verbatim>\<open>src/index.js\<close> is the
  one under \<^verbatim>\<open>part_001\<close>. \<open>Model_toJSON\<close> sets the flag before it serialises: it runs
  alike with both, and the examples of the hooks below take \<open>bookshelf_host\<close>.
\<close>

lemma truthy_plain_serialize:
  "truthy (plain_serialize sh m)"
  by (cases m) simp_all

lemma model_toJSON_index_plain:
  assumes "truthy (entityRoot o1)" and "\<not> truthy (shallow o1)"
  shows "model_toJSON_index m o1 = (Inr (plain_serialize False m), o1)"
  using assms
  by (simp add: model_toJSON_index_def Model_toJSON_def Let_def ensure_object_def
      base_model_toJSON_def bookshelf_host_def)

lemma bookshelf_models_plain:
  assumes "truthy (entityRoot o1)" and "\<not> truthy (shallow o1)"
  shows "bookshelf_models model_toJSON_index cs o1 =
           (Inr (map (plain_serialize False) cs), o1)"
  by (induction cs) (simp_all add: model_toJSON_index_plain[OF assms])

lemma collection_toJSON_index_plain:
  assumes "truthy (entityRoot o1)" and "\<not> truthy (shallow o1)"
  shows "collection_toJSON_index (Collection cs sm de) o1 =
           (Inr (plain_serialize False (Collection cs sm de)), o1)"
proof -
  have "filter truthy (map (plain_serialize False) cs) = map (plain_serialize False) cs"
    by (simp add: truthy_plain_serialize)
  then show ?thesis
    by (simp add: collection_toJSON_index_def Collection_toJSON_filter_def
        base_collection_toJSON_def bookshelf_collection_toJSON_def
        bookshelf_models_plain[OF assms] bookshelf_host_def)
qed

lemma bookshelf_relations_plain:
  assumes "truthy (entityRoot o1)" and "\<not> truthy (shallow o1)"
  shows "bookshelf_relations
           (\<lambda>sub o1. case sub of
                        Model a rels ms sm de \<Rightarrow> model_toJSON_index sub o1
                      | Collection cs sm de \<Rightarrow> collection_toJSON_index sub o1)
           rels attrs o1 =
         (Inr (fold (\<lambda>(k, sub). set_key k (plain_serialize False sub)) rels attrs), o1)"
proof (induction rels arbitrary: attrs)
  case Nil
  show ?case by simp
next
  case (Cons r rels)
  obtain k sub where r: "r = (k, sub)" by (cases r)
  have "(case sub of
           Model a rels ms sm de \<Rightarrow> model_toJSON_index sub o1
         | Collection cs sm de \<Rightarrow> collection_toJSON_index sub o1) =
        (Inr (plain_serialize False sub), o1)"
    by (cases sub)
      (simp_all only: source.case model_toJSON_index_plain[OF assms]
        collection_toJSON_index_plain[OF assms])
  with Cons r show ?case by simp
qed

lemma index_host_plain:
  assumes "truthy (entityRoot o1)"
  shows "ModelBase_toJSON index_host (Model a rels ms sm de) o1 =
           ModelBase_toJSON bookshelf_host (Model a rels ms sm de) o1"
proof (cases "truthy (shallow o1)")
  case True
  then show ?thesis
    by (simp add: index_host_def bookshelf_model_toJSON_def bookshelf_host_def)
next
  case False
  then show ?thesis
    by (simp add: index_host_def bookshelf_model_toJSON_def
        bookshelf_relations_plain[OF assms False] bookshelf_host_def)
qed

lemma Model_toJSON_index_host:
  assumes "this st = Model a rels ms sm de"
  shows "Model_toJSON index_host options st = Model_toJSON bookshelf_host options st"
proof -
  have e: "entity_represent index_host = entity_represent bookshelf_host"
    by (simp add: index_host_def)
  have b: "base_model_toJSON index_host (st\<lparr>opts := o1\<rparr>) =
      base_model_toJSON bookshelf_host (st\<lparr>opts := o1\<rparr>)" if "truthy (entityRoot o1)" for o1
    using assms index_host_plain[OF that, of a rels ms sm de]
    by (simp add: base_model_toJSON_def)
  have r: "Model_represent_index index_host entity (st\<lparr>opts := o1\<rparr>) =
      Model_represent_index bookshelf_host entity (st\<lparr>opts := o1\<rparr>)"
    if "truthy (entityRoot o1)" for o1 entity
  proof -
    have "call_entity_represent index_host e' d st1 =
        call_entity_represent bookshelf_host e' d st1" for e' d st1
      by (simp add: call_entity_represent_def e)
    then have "entity_represent_model index_host e' (st\<lparr>opts := o1\<rparr>) =
        entity_represent_model bookshelf_host e' (st\<lparr>opts := o1\<rparr>)" for e'
      by (simp add: entity_represent_model_def b[OF that] split: prod.splits sum.splits)
    then show ?thesis
      by (simp add: Model_represent_index_def split: option.splits sum.splits)
  qed
  show ?thesis
    by (simp add: Model_toJSON_def Let_def b r)
qed

subsection \<open>Options, entity resolution and the hooks\<close>

text \<open>
  C3 (amended). The relation safety check of \<^verbatim>\<open>Model.represent\<close> does not read
  \<^verbatim>\<open>options.safe\<close>: with \<^verbatim>\<open>entitySafeMode\<close> enabled and no truthy \<^verbatim>\<open>shallow\<close>, the error of the
  check is raised whatever \<^verbatim>\<open>safe\<close> holds, \<^verbatim>\<open>false\<close> included; the check is skipped exactly
  when \<^verbatim>\<open>entitySafeMode\<close> is disabled or \<^verbatim>\<open>shallow\<close> is truthy. \<^verbatim>\<open>Model.present\<close>, which adds
  \<^verbatim>\<open>safe: false\<close>, still rejects with the error of the check on the loaded model.
\<close>

theorem safe_option_not_consulted:
  "(entitySafeMode (this st) \<and> \<not> truthy (shallow (opts st))
      \<and> performSafetyCheck e (this st) = Inl err
    \<longrightarrow> Model_represent X (Some e) (st\<lparr>opts := (opts st)\<lparr>safe := s\<rparr>\<rparr>) =
          (Inl err, st\<lparr>opts := (opts st)\<lparr>safe := s\<rparr>\<rparr>))
   \<and> (\<not> (entitySafeMode (this st) \<and> \<not> truthy (shallow (opts st)))
    \<longrightarrow> Model_represent X (Some e) st = entity_represent_model X e st)
   \<and> (detectRelationsToLoad (lodash_has X) (Some e) (Some (this st)) [] = Inr paths
      \<and> load X (this st) paths = Inr m
      \<and> entitySafeMode m \<and> \<not> truthy (shallow (opts st))
      \<and> performSafetyCheck e m = Inl err
    \<longrightarrow> fst (Model_present_chain X e st) = Inl err)"
  by (simp add: Model_represent_def Model_present_chain_def this_load_def
      extend_safe_false_def)

theorem safe_option_not_consulted_witness:
  "Model_represent bookshelf_host (Some user_entity_unsafe) user_state_safe_false =
     (Inl (UnsafeRelationExposure ''address''), user_state_safe_false)
   \<and> Model_represent bookshelf_host (Some user_entity_unsafe) user_state_shallow =
     (Inr (JObj [(''id'', JNum 1)]), user_state_shallow)
   \<and> fst (Model_present_chain bookshelf_host user_entity_unsafe user_state) =
     Inl (UnsafeRelationExposure ''address'')"
proof -
  have 1: "entitySafeMode (this user_state) \<and> \<not> truthy (shallow (opts user_state))
      \<and> performSafetyCheck user_entity_unsafe (this user_state) =
          Inl (UnsafeRelationExposure ''address'')"
    by (simp add: user_entity_unsafe_def city_model_def address_model_def user_model_def
      bookshelf_host_def safe_mode_def object_fields_def user_state_def
      user_state_safe_false_def user_state_shallow_def empty_options_def)
  have 2: "\<not> (entitySafeMode (this user_state_shallow)
      \<and> \<not> truthy (shallow (opts user_state_shallow)))"
    by (simp add: user_entity_unsafe_def city_model_def address_model_def user_model_def
      bookshelf_host_def safe_mode_def object_fields_def user_state_def
      user_state_safe_false_def user_state_shallow_def empty_options_def)
  have 3: "user_state\<lparr>opts := (opts user_state)\<lparr>safe := Some (JBool False)\<rparr>\<rparr> =
      user_state_safe_false"
    by (simp add: user_state_def user_state_safe_false_def)
  have 4: "entity_represent_model bookshelf_host user_entity_unsafe user_state_shallow =
      (Inr (JObj [(''id'', JNum 1)]), user_state_shallow)"
    by (simp add: call_defs user_entity_unsafe_def city_model_def address_model_def user_model_def
      bookshelf_host_def safe_mode_def object_fields_def user_state_def
      user_state_safe_false_def user_state_shallow_def empty_options_def)
  have 5: "detectRelationsToLoad (lodash_has bookshelf_host) (Some user_entity_unsafe)
        (Some (this user_state)) [] = Inr []
      \<and> load bookshelf_host (this user_state) [] = Inr user_model
      \<and> entitySafeMode user_model \<and> \<not> truthy (shallow (opts user_state))
      \<and> performSafetyCheck user_entity_unsafe user_model =
          Inl (UnsafeRelationExposure ''address'')"
    by (simp add: user_entity_unsafe_def city_model_def address_model_def user_model_def
      bookshelf_host_def safe_mode_def object_fields_def user_state_def
      user_state_safe_false_def user_state_shallow_def empty_options_def)
  have a: "Model_represent bookshelf_host (Some user_entity_unsafe) user_state_safe_false =
     (Inl (UnsafeRelationExposure ''address''), user_state_safe_false)"
    using 1 3
      safe_option_not_consulted[where st = user_state and e = user_entity_unsafe
        and err = "UnsafeRelationExposure ''address''" and X = bookshelf_host
        and s = "Some (JBool False)"]
    by simp
  have b: "Model_represent bookshelf_host (Some user_entity_unsafe) user_state_shallow =
     (Inr (JObj [(''id'', JNum 1)]), user_state_shallow)"
    using 2 4
      safe_option_not_consulted[where st = user_state_shallow and e = user_entity_unsafe
        and X = bookshelf_host]
    by simp
  have c: "fst (Model_present_chain bookshelf_host user_entity_unsafe user_state) =
     Inl (UnsafeRelationExposure ''address'')"
    using 5
      safe_option_not_consulted[where st = user_state and e = user_entity_unsafe
        and err = "UnsafeRelationExposure ''address''" and X = bookshelf_host
        and paths = "[]" and m = user_model]
    by blast
  from a b c show ?thesis by blast
qed

theorem safe_false_counterexample:
  "safe (opts user_state_safe_false) = Some (JBool False)
   \<and> entitySafeMode (this user_state_safe_false)
   \<and> Model_represent bookshelf_host (Some user_entity_unsafe) user_state_safe_false =
       (Inl (UnsafeRelationExposure ''address''), user_state_safe_false)
   \<and> fst (Model_present bookshelf_host (Some with_unsafe_options) user_state) =
       Inl (UnsafeRelationExposure ''address'')"
  by (simp add: Model_represent_def Model_present_def Let_def Model_present_chain_def
      this_load_def extend_safe_false_def js_or_def ensure_object_def
      user_entity_unsafe_def city_model_def address_model_def user_model_def
      bookshelf_host_def safe_mode_def object_fields_def user_state_def
      user_state_safe_false_def with_unsafe_options_def empty_options_def)

text \<open>
  C6. The first non-empty candidate wins: \<^verbatim>\<open>Model.present\<close> and \<^verbatim>\<open>Collection.present\<close> take
  \<^verbatim>\<open>options.entity\<close>, then \<^verbatim>\<open>options.with\<close>, then \<^verbatim>\<open>options.using\<close>, then the default entity;
  the \<^verbatim>\<open>toJSON\<close> hooks take \<^verbatim>\<open>options.entity\<close>, then the default entity, and with neither
  the model's hook returns \<^verbatim>\<open>undefined\<close>.
\<close>

theorem entity_precedence:
  "Model_present X options st =
     (case first_non_empty
             [entity_opt (ensure_object options), with_opt (ensure_object options),
              using_opt (ensure_object options), defaultEntity (this st)] of
        None \<Rightarrow> (Inr JUndefined, st\<lparr>opts := ensure_object options\<rparr>)
      | Some e \<Rightarrow> Model_present_chain X e (st\<lparr>opts := ensure_object options\<rparr>))
   \<and> Collection_present X options st =
     (case first_non_empty
             [entity_opt (ensure_object options), with_opt (ensure_object options),
              using_opt (ensure_object options), proto_defaultEntity (this st)] of
        None \<Rightarrow> (Inr (JArr []), st\<lparr>opts := ensure_object options\<rparr>)
      | Some e \<Rightarrow>
          if models (this st) = [] then (Inr (JArr []), st\<lparr>opts := ensure_object options\<rparr>)
          else Collection_present_chain X e (st\<lparr>opts := ensure_object options\<rparr>))
   \<and> Model_toJSON X options st =
     (if truthy (entityRoot (ensure_object options))
      then base_model_toJSON X (st\<lparr>opts := ensure_object options\<rparr>)
      else Model_represent_index X
             (first_non_empty [entity_opt (ensure_object options), defaultEntity (this st)])
             (st\<lparr>opts := (ensure_object options)\<lparr>entityRoot := JBool True\<rparr>\<rparr>))
   \<and> (\<not> truthy (entityRoot (ensure_object options))
        \<and> first_non_empty [entity_opt (ensure_object options), defaultEntity (this st)] = None
      \<longrightarrow> Model_toJSON X options st =
            (Inr JUndefined, st\<lparr>opts := (ensure_object options)\<lparr>entityRoot := JBool True\<rparr>\<rparr>))
   \<and> (\<not> truthy (entityRoot (ensure_object options))
      \<longrightarrow> Collection_toJSON X options st =
            Collection_represent_index X
              (first_non_empty
                 [entity_opt (ensure_object options), proto_defaultEntity (this st)])
              (st\<lparr>opts := (ensure_object options)\<lparr>entityRoot := JBool True\<rparr>\<rparr>))"
proof (intro conjI impI)
  show "Model_present X options st =
     (case first_non_empty
             [entity_opt (ensure_object options), with_opt (ensure_object options),
              using_opt (ensure_object options), defaultEntity (this st)] of
        None \<Rightarrow> (Inr JUndefined, st\<lparr>opts := ensure_object options\<rparr>)
      | Some e \<Rightarrow> Model_present_chain X e (st\<lparr>opts := ensure_object options\<rparr>))"
    by (simp add: Model_present_def Let_def js_or_first_of_four del: first_non_empty.simps)
  show "Collection_present X options st =
     (case first_non_empty
             [entity_opt (ensure_object options), with_opt (ensure_object options),
              using_opt (ensure_object options), proto_defaultEntity (this st)] of
        None \<Rightarrow> (Inr (JArr []), st\<lparr>opts := ensure_object options\<rparr>)
      | Some e \<Rightarrow>
          if models (this st) = [] then (Inr (JArr []), st\<lparr>opts := ensure_object options\<rparr>)
          else Collection_present_chain X e (st\<lparr>opts := ensure_object options\<rparr>))"
    by (simp add: Collection_present_def Let_def js_or_first_of_four split: option.splits
        del: first_non_empty.simps)
  show "Model_toJSON X options st =
     (if truthy (entityRoot (ensure_object options))
      then base_model_toJSON X (st\<lparr>opts := ensure_object options\<rparr>)
      else Model_represent_index X
             (first_non_empty [entity_opt (ensure_object options), defaultEntity (this st)])
             (st\<lparr>opts := (ensure_object options)\<lparr>entityRoot := JBool True\<rparr>\<rparr>))"
    by (simp add: Model_toJSON_def Let_def js_or_first_of_two del: first_non_empty.simps)
next
  assume "\<not> truthy (entityRoot (ensure_object options))
        \<and> first_non_empty [entity_opt (ensure_object options), defaultEntity (this st)] = None"
  then show "Model_toJSON X options st =
      (Inr JUndefined, st\<lparr>opts := (ensure_object options)\<lparr>entityRoot := JBool True\<rparr>\<rparr>)"
    by (simp add: Model_toJSON_def Let_def Model_represent_index_def js_or_first_of_two
        del: first_non_empty.simps)
next
  assume "\<not> truthy (entityRoot (ensure_object options))"
  then show "Collection_toJSON X options st =
            Collection_represent_index X
              (first_non_empty
                 [entity_opt (ensure_object options), proto_defaultEntity (this st)])
              (st\<lparr>opts := (ensure_object options)\<lparr>entityRoot := JBool True\<rparr>\<rparr>)"
    by (simp add: Collection_toJSON_def Let_def js_or_first_of_two
        del: first_non_empty.simps)
qed

theorem entity_precedence_witness:
  "Model_present bookshelf_host (Some using_city_options) user_default_state =
     Model_present_chain bookshelf_host city_entity
       (user_default_state\<lparr>opts := using_city_options\<rparr>)
   \<and> Model_toJSON bookshelf_host (Some using_city_options) user_default_state =
     Model_represent_index bookshelf_host (Some id_entity)
       (user_default_state\<lparr>opts := using_city_options\<lparr>entityRoot := JBool True\<rparr>\<rparr>)
   \<and> Model_toJSON bookshelf_host None user_state =
     (Inr JUndefined, user_state\<lparr>opts := empty_options\<lparr>entityRoot := JBool True\<rparr>\<rparr>)
   \<and> Collection_toJSON bookshelf_host None users_state =
     Collection_represent_index bookshelf_host (Some user_entity)
       (users_state\<lparr>opts := empty_options\<lparr>entityRoot := JBool True\<rparr>\<rparr>)"
proof -
  have o: "ensure_object (Some using_city_options) = using_city_options"
    "ensure_object None = empty_options"
    by (simp_all add: ensure_object_def)
  have 1: "first_non_empty
      [entity_opt using_city_options, with_opt using_city_options,
       using_opt using_city_options, defaultEntity (this user_default_state)] =
      Some city_entity"
    by (simp add: using_city_options_def user_default_state_def user_model_default_def
        empty_options_def)
  have 2: "first_non_empty
      [entity_opt using_city_options, defaultEntity (this user_default_state)] =
      Some id_entity"
    by (simp add: using_city_options_def user_default_state_def user_model_default_def
        empty_options_def)
  have 3: "\<not> truthy (entityRoot using_city_options)"
    by (simp add: using_city_options_def empty_options_def)
  have 4: "\<not> truthy (entityRoot empty_options)
      \<and> first_non_empty [entity_opt empty_options, defaultEntity (this user_state)] = None"
    by (simp add: user_state_def user_model_def empty_options_def)
  have a: "Model_present bookshelf_host (Some using_city_options) user_default_state =
      Model_present_chain bookshelf_host city_entity
        (user_default_state\<lparr>opts := using_city_options\<rparr>)"
    using 1 entity_precedence[of bookshelf_host "Some using_city_options" user_default_state]
    by (simp add: o)
  have b: "Model_toJSON bookshelf_host (Some using_city_options) user_default_state =
     Model_represent_index bookshelf_host (Some id_entity)
       (user_default_state\<lparr>opts := using_city_options\<lparr>entityRoot := JBool True\<rparr>\<rparr>)"
    using 2 3 entity_precedence[of bookshelf_host "Some using_city_options" user_default_state]
    by (simp add: o)
  have c: "Model_toJSON bookshelf_host None user_state =
     (Inr JUndefined, user_state\<lparr>opts := empty_options\<lparr>entityRoot := JBool True\<rparr>\<rparr>)"
    using 4 entity_precedence[of bookshelf_host None user_state] unfolding o by blast
  have 5: "\<not> truthy (entityRoot empty_options)
      \<and> first_non_empty [entity_opt empty_options, proto_defaultEntity (this users_state)] =
          Some user_entity"
    by (simp add: users_state_def users_def empty_options_def)
  have d: "Collection_toJSON bookshelf_host None users_state =
     Collection_represent_index bookshelf_host (Some user_entity)
       (users_state\<lparr>opts := empty_options\<lparr>entityRoot := JBool True\<rparr>\<rparr>)"
    using 5 entity_precedence[of bookshelf_host None users_state] by (simp add: o)
  from a b c d show ?thesis by blast
qed

text \<open>
  C7. The recursion guard: when \<^verbatim>\<open>opts.entityRoot\<close> is not set, \<^verbatim>\<open>toJSON\<close> sets it to
  \<^verbatim>\<open>true\<close> and returns \<^verbatim>\<open>represent\<close> with the resolved entity; when it is set, \<^verbatim>\<open>toJSON\<close>
  returns the base serialisation and \<^verbatim>\<open>represent\<close> is not called. With external functions
  that write nothing, the flag is set after any call, so a further call with the same
  options object returns the base serialisation: the entity is applied once, at the
  root.
\<close>

theorem entityRoot_guard:
  "(\<not> truthy (entityRoot (ensure_object options))
      \<longrightarrow> Model_toJSON X options st =
            Model_represent_index X
              (js_or (entity_opt (ensure_object options)) (defaultEntity (this st)))
              (st\<lparr>opts := (ensure_object options)\<lparr>entityRoot := JBool True\<rparr>\<rparr>))
   \<and> (truthy (entityRoot (ensure_object options))
      \<longrightarrow> Model_toJSON X options st =
            base_model_toJSON X (st\<lparr>opts := ensure_object options\<rparr>))
   \<and> (pure_externals X
      \<longrightarrow> truthy (entityRoot (opts (snd (Model_toJSON X options st))))
          \<and> Model_toJSON X (Some (opts (snd (Model_toJSON X options st))))
                (snd (Model_toJSON X options st)) =
              base_model_toJSON X (snd (Model_toJSON X options st)))
   \<and> (\<not> truthy (entityRoot (ensure_object options))
      \<longrightarrow> Collection_toJSON X options st =
            Collection_represent_index X
              (js_or (entity_opt (ensure_object options)) (proto_defaultEntity (this st)))
              (st\<lparr>opts := (ensure_object options)\<lparr>entityRoot := JBool True\<rparr>\<rparr>))
   \<and> (truthy (entityRoot (ensure_object options))
      \<longrightarrow> Collection_toJSON X options st =
            (case base_collection_toJSON X (st\<lparr>opts := ensure_object options\<rparr>) of
               (Inl err, st1) \<Rightarrow> (Inl err, st1)
             | (Inr xs, st1) \<Rightarrow> (Inr (JArr xs), st1)))"
proof (intro conjI impI)
  assume p: "pure_externals X"
  show t: "truthy (entityRoot (opts (snd (Model_toJSON X options st))))"
    by (simp add: Model_toJSON_def Let_def pure_Model_represent_index[OF p]
        pure_base_model_toJSON[OF p])
  show "Model_toJSON X (Some (opts (snd (Model_toJSON X options st))))
          (snd (Model_toJSON X options st)) =
      base_model_toJSON X (snd (Model_toJSON X options st))"
    using t
    by (simp add: Model_toJSON_def[of X "Some (opts (snd (Model_toJSON X options st)))"]
        Let_def ensure_object_def)
qed (simp_all add: Model_toJSON_def Collection_toJSON_def Let_def)

theorem entityRoot_guard_witness:
  "Model_toJSON bookshelf_host (Some using_city_options) user_default_state =
     (Inr (JObj [(''id'', JNum 1)]),
      user_default_state\<lparr>opts := using_city_options\<lparr>entityRoot := JBool True\<rparr>\<rparr>)
   \<and> Model_toJSON bookshelf_host (Some (using_city_options\<lparr>entityRoot := JBool True\<rparr>))
       user_default_state =
     (Inr (JObj [(''id'', JNum 1)]),
      user_default_state\<lparr>opts := using_city_options\<lparr>entityRoot := JBool True\<rparr>\<rparr>)
   \<and> pure_externals bookshelf_host
   \<and> Model_toJSON bookshelf_host
       (Some (opts (snd (Model_toJSON bookshelf_host (Some using_city_options)
                           user_default_state))))
       (snd (Model_toJSON bookshelf_host (Some using_city_options) user_default_state)) =
     base_model_toJSON bookshelf_host
       (snd (Model_toJSON bookshelf_host (Some using_city_options) user_default_state))
   \<and> Collection_toJSON bookshelf_host None users_state =
     Collection_represent_index bookshelf_host (Some user_entity)
       (users_state\<lparr>opts := empty_options\<lparr>entityRoot := JBool True\<rparr>\<rparr>)
   \<and> Collection_toJSON bookshelf_host (Some (empty_options\<lparr>entityRoot := JBool True\<rparr>))
       users_state =
     (Inr (JArr [JObj [(''id'', JNum 1)],
                 JObj [(''id'', JNum 1),
                       (''address'', JObj [(''street'', JStr ''Main''),
                                           (''city'', JObj [(''name'', JStr ''Oslo'')])])]]),
      users_state\<lparr>opts := empty_options\<lparr>entityRoot := JBool True\<rparr>\<rparr>)"
proof -
  have o: "ensure_object (Some using_city_options) = using_city_options"
    "ensure_object (Some (using_city_options\<lparr>entityRoot := JBool True\<rparr>)) =
       using_city_options\<lparr>entityRoot := JBool True\<rparr>"
    "ensure_object None = empty_options"
    "ensure_object (Some (empty_options\<lparr>entityRoot := JBool True\<rparr>)) =
       empty_options\<lparr>entityRoot := JBool True\<rparr>"
    by (simp_all add: ensure_object_def)
  have 1: "\<not> truthy (entityRoot using_city_options)"
    by (simp add: using_city_options_def empty_options_def)
  have 2: "truthy (entityRoot (using_city_options\<lparr>entityRoot := JBool True\<rparr>))"
    by simp
  have 3: "Model_represent_index bookshelf_host
      (js_or (entity_opt using_city_options) (defaultEntity (this user_default_state)))
      (user_default_state\<lparr>opts := using_city_options\<lparr>entityRoot := JBool True\<rparr>\<rparr>) =
     (Inr (JObj [(''id'', JNum 1)]),
      user_default_state\<lparr>opts := using_city_options\<lparr>entityRoot := JBool True\<rparr>\<rparr>)"
    by (simp add: Model_represent_index_def js_or_def call_defs id_entity_def city_entity_def address_entity_def user_entity_def city_model_def
      address_model_def user_model_def user_model_unloaded_def users_def
      bookshelf_host_def safe_mode_def object_fields_def users_state_def
      user_model_default_def using_city_options_def user_default_state_def
      empty_options_def ensure_object_def)
  have a: "Model_toJSON bookshelf_host (Some using_city_options) user_default_state =
     (Inr (JObj [(''id'', JNum 1)]),
      user_default_state\<lparr>opts := using_city_options\<lparr>entityRoot := JBool True\<rparr>\<rparr>)"
    using 1 3 entityRoot_guard[of "Some using_city_options" bookshelf_host user_default_state]
    by (simp add: o)
  have 4: "base_model_toJSON bookshelf_host
      (user_default_state\<lparr>opts := using_city_options\<lparr>entityRoot := JBool True\<rparr>\<rparr>) =
     (Inr (JObj [(''id'', JNum 1)]),
      user_default_state\<lparr>opts := using_city_options\<lparr>entityRoot := JBool True\<rparr>\<rparr>)"
    by (simp add: call_defs city_entity_def address_entity_def user_entity_def city_model_def
      address_model_def user_model_def user_model_unloaded_def users_def
      bookshelf_host_def safe_mode_def object_fields_def users_state_def
      user_model_default_def using_city_options_def user_default_state_def
      empty_options_def ensure_object_def)
  have b: "Model_toJSON bookshelf_host (Some (using_city_options\<lparr>entityRoot := JBool True\<rparr>))
       user_default_state =
     (Inr (JObj [(''id'', JNum 1)]),
      user_default_state\<lparr>opts := using_city_options\<lparr>entityRoot := JBool True\<rparr>\<rparr>)"
    using 2 4 entityRoot_guard[of "Some (using_city_options\<lparr>entityRoot := JBool True\<rparr>)"
        bookshelf_host user_default_state]
    by (simp add: o)
  have p: "pure_externals bookshelf_host"
    by (simp add: pure_externals_def bookshelf_host_def)
  have c: "Model_toJSON bookshelf_host
       (Some (opts (snd (Model_toJSON bookshelf_host (Some using_city_options)
                           user_default_state))))
       (snd (Model_toJSON bookshelf_host (Some using_city_options) user_default_state)) =
     base_model_toJSON bookshelf_host
       (snd (Model_toJSON bookshelf_host (Some using_city_options) user_default_state))"
    using p entityRoot_guard[of "Some using_city_options" bookshelf_host user_default_state]
    by blast
  have 5: "\<not> truthy (entityRoot empty_options)"
    by (simp add: empty_options_def)
  have 6: "js_or (entity_opt empty_options) (proto_defaultEntity (this users_state)) =
      Some user_entity"
    by (simp add: js_or_def users_state_def users_def empty_options_def)
  have d: "Collection_toJSON bookshelf_host None users_state =
     Collection_represent_index bookshelf_host (Some user_entity)
       (users_state\<lparr>opts := empty_options\<lparr>entityRoot := JBool True\<rparr>\<rparr>)"
    using 5 6 entityRoot_guard[of None bookshelf_host users_state] by (simp add: o)
  have 7: "truthy (entityRoot (empty_options\<lparr>entityRoot := JBool True\<rparr>))"
    by simp
  have 8: "base_collection_toJSON bookshelf_host
       (users_state\<lparr>opts := empty_options\<lparr>entityRoot := JBool True\<rparr>\<rparr>) =
     (Inr [JObj [(''id'', JNum 1)],
           JObj [(''id'', JNum 1),
                 (''address'', JObj [(''street'', JStr ''Main''),
                                     (''city'', JObj [(''name'', JStr ''Oslo'')])])]],
      users_state\<lparr>opts := empty_options\<lparr>entityRoot := JBool True\<rparr>\<rparr>)"
    by (simp add: call_defs city_entity_def address_entity_def user_entity_def city_model_def
      address_model_def user_model_def user_model_unloaded_def users_def
      bookshelf_host_def safe_mode_def object_fields_def users_state_def
      user_model_default_def using_city_options_def user_default_state_def
      empty_options_def ensure_object_def)
  have e: "Collection_toJSON bookshelf_host (Some (empty_options\<lparr>entityRoot := JBool True\<rparr>))
       users_state =
     (Inr (JArr [JObj [(''id'', JNum 1)],
                 JObj [(''id'', JNum 1),
                       (''address'', JObj [(''street'', JStr ''Main''),
                                           (''city'', JObj [(''name'', JStr ''Oslo'')])])]]),
      users_state\<lparr>opts := empty_options\<lparr>entityRoot := JBool True\<rparr>\<rparr>)"
    using 7 8 entityRoot_guard[of "Some (empty_options\<lparr>entityRoot := JBool True\<rparr>)"
        bookshelf_host users_state]
    by (simp add: o)
  from a b p c d e show ?thesis by blast
qed

text \<open>
  C8 (amended). The output of \<^verbatim>\<open>Collection.toJSON\<close> (\<^verbatim>\<open>src/index.js\<close>, lines 109-111) is
  the base serialisation without its falsy elements, in the same order: it holds no
  \<^verbatim>\<open>undefined\<close>, \<^verbatim>\<open>null\<close> or other falsy element, its length is the base length less the
  number of falsy elements, and every object of the base serialisation, the empty
  object included, is kept. In the examples the base serialisation calls the \<^verbatim>\<open>toJSON\<close> of
  each model with the one options object: the first model is represented with the
  entity, the others are serialised as they are.
\<close>

theorem collection_toJSON_drops_falsy:
  assumes "base_collection_toJSON X st = (Inr xs, st1)"
  shows "Collection_toJSON_filter X st = (Inr (JArr (filter truthy xs)), st1)
         \<and> (\<forall>x \<in> set (filter truthy xs). truthy x)
         \<and> JUndefined \<notin> set (filter truthy xs) \<and> JNull \<notin> set (filter truthy xs)
         \<and> length (filter truthy xs) + length (filter (\<lambda>x. \<not> truthy x) xs) = length xs
         \<and> (\<forall>kvs. JObj kvs \<in> set xs \<longrightarrow> JObj kvs \<in> set (filter truthy xs))"
  using assms by (simp add: Collection_toJSON_filter_def sum_length_filter_compl)

theorem collection_toJSON_drops_falsy_witness:
  "base_collection_toJSON index_host blanks_state =
     (Inr [JUndefined, JObj [(''id'', JNum 1)]],
      blanks_state\<lparr>opts := empty_options\<lparr>entityRoot := JBool True\<rparr>\<rparr>)
   \<and> Collection_toJSON_filter index_host blanks_state =
     (Inr (JArr [JObj [(''id'', JNum 1)]]),
      blanks_state\<lparr>opts := empty_options\<lparr>entityRoot := JBool True\<rparr>\<rparr>)"
proof -
  have b: "base_collection_toJSON index_host blanks_state =
      (Inr [JUndefined, JObj [(''id'', JNum 1)]],
       blanks_state\<lparr>opts := empty_options\<lparr>entityRoot := JBool True\<rparr>\<rparr>)"
    by (simp add: call_defs index_host_def bookshelf_collection_toJSON_def
        model_toJSON_index_def Model_toJSON_def Model_represent_index_def Let_def
        ensure_object_def js_or_def bookshelf_host_def user_model_unloaded_def
        blank_model_def blanks_def blanks_state_def empty_options_def)
  from collection_toJSON_drops_falsy[OF b] b show ?thesis by simp
qed

theorem collection_toJSON_empty_counterexample:
  "length (models (this blanks_entity_state)) = 2
   \<and> Collection_toJSON_filter index_host blanks_entity_state =
       (Inr (JArr [JObj [], JObj [(''id'', JNum 1)]]),
        blanks_entity_state\<lparr>opts := (opts blanks_entity_state)\<lparr>entityRoot := JBool True\<rparr>\<rparr>)"
  by (simp add: Collection_toJSON_filter_def call_defs index_host_def
      bookshelf_collection_toJSON_def model_toJSON_index_def Model_toJSON_def
      Model_represent_index_def Let_def ensure_object_def js_or_def bookshelf_host_def
      safe_mode_def object_fields_def id_entity_def user_model_unloaded_def blank_model_def
      blanks_def blanks_entity_state_def empty_options_def)

text \<open>
  C9 (amended). With external functions that write nothing (a pure host
  serialisation, pure \<^verbatim>\<open>if\<close> and \<^verbatim>\<open>value\<close> functions), \<^verbatim>\<open>Model.represent\<close> leaves the receiver
  (its attributes and loaded relations), the options and the load log as they were, and
  a second call with the same entity returns what the first call returned. Its result
  is a function of the entity, the options, the host's serialisation of the model, the
  loaded relations of the model and its \<^verbatim>\<open>entitySafeMode\<close>: two models that agree on these
  are represented alike. It is not a function of the attributes and the options alone:
  the safety check reads the loaded relations.
\<close>

theorem Model_represent_pure:
  assumes "pure_externals X"
  shows "snd (Model_represent X entity st) = st
         \<and> Model_represent X entity (snd (Model_represent X entity st)) =
             Model_represent X entity st
         \<and> attributes (this (snd (Model_represent X entity st))) = attributes (this st)
         \<and> relations (this (snd (Model_represent X entity st))) = relations (this st)
         \<and> (this st = Model a rels ms sm de \<and> this st' = Model a' rels ms' sm de'
              \<and> opts st' = opts st
              \<and> fst (ModelBase_toJSON X (this st') (opts st')) =
                  fst (ModelBase_toJSON X (this st) (opts st))
            \<longrightarrow> fst (Model_represent X entity st') = fst (Model_represent X entity st))"
proof (intro conjI impI)
  assume h: "this st = Model a rels ms sm de \<and> this st' = Model a' rels ms' sm de'
              \<and> opts st' = opts st
              \<and> fst (ModelBase_toJSON X (this st') (opts st')) =
                  fst (ModelBase_toJSON X (this st) (opts st))"
  then have m: "this st = Model a rels ms sm de" and m': "this st' = Model a' rels ms' sm de'"
    and o: "opts st' = opts st"
    and b0: "fst (ModelBase_toJSON X (this st') (opts st')) =
        fst (ModelBase_toJSON X (this st) (opts st))"
    by blast+
  note b = b0[unfolded o]
  have r: "fst (entity_represent_model X e st') = fst (entity_represent_model X e st)" for e
    by (simp only: pure_entity_represent_model_fst[OF assms] o b)
  have c: "performSafetyCheck e (this st') = performSafetyCheck e (this st)" for e
    unfolding m m' by (rule performSafetyCheck_relations)
  have s: "entitySafeMode (this st') = entitySafeMode (this st)"
    by (simp add: m m')
  show "fst (Model_represent X entity st') = fst (Model_represent X entity st)"
    by (simp add: Model_represent_def r c s o split: option.splits sum.splits)
qed (simp_all add: pure_Model_represent[OF assms])

theorem Model_represent_pure_witness:
  "pure_externals bookshelf_host
   \<and> snd (Model_represent bookshelf_host (Some user_entity) user_state) = user_state
   \<and> Model_represent bookshelf_host (Some user_entity)
       (snd (Model_represent bookshelf_host (Some user_entity) user_state)) =
     (Inr (JObj [(''id'', JNum 1),
                 (''address'', JObj [(''street'', JStr ''Main''),
                                     (''city'', JObj [(''name'', JStr ''Oslo'')])])]),
      user_state)
   \<and> fst (Model_represent bookshelf_host (Some user_entity) user_twin_state) =
     fst (Model_represent bookshelf_host (Some user_entity) user_state)"
proof -
  have p: "pure_externals bookshelf_host"
    by (simp add: pure_externals_def bookshelf_host_def)
  have r: "Model_represent bookshelf_host (Some user_entity) user_state =
      (Inr (JObj [(''id'', JNum 1),
                  (''address'', JObj [(''street'', JStr ''Main''),
                                      (''city'', JObj [(''name'', JStr ''Oslo'')])])]),
       user_state)"
    by (simp add: Model_represent_def call_defs city_entity_def address_entity_def user_entity_def city_model_def
      address_model_def user_model_def bookshelf_host_def safe_mode_def object_fields_def
      user_state_def user_model_twin_def user_twin_state_def
      empty_options_def)
  have a: "snd (Model_represent bookshelf_host (Some user_entity) user_state) = user_state
      \<and> Model_represent bookshelf_host (Some user_entity)
          (snd (Model_represent bookshelf_host (Some user_entity) user_state)) =
        (Inr (JObj [(''id'', JNum 1),
                    (''address'', JObj [(''street'', JStr ''Main''),
                                        (''city'', JObj [(''name'', JStr ''Oslo'')])])]),
         user_state)"
    using r Model_represent_pure[OF p, where entity = "Some user_entity" and st = user_state]
    by simp
  have h: "this user_state =
        Model [(''id'', JNum 1)] [(''address'', address_model)] [''address''] True None
      \<and> this user_twin_state =
        Model [(''id'', JNum 1)] [(''address'', address_model)] [] True (Some user_entity)
      \<and> opts user_twin_state = opts user_state
      \<and> fst (ModelBase_toJSON bookshelf_host (this user_twin_state) (opts user_twin_state)) =
          fst (ModelBase_toJSON bookshelf_host (this user_state) (opts user_state))"
    by (simp add: user_state_def user_twin_state_def user_model_def user_model_twin_def
        bookshelf_host_def)
  have b: "fst (Model_represent bookshelf_host (Some user_entity) user_twin_state) =
      fst (Model_represent bookshelf_host (Some user_entity) user_state)"
    using h Model_represent_pure[OF p, where entity = "Some user_entity" and st = user_state
        and st' = user_twin_state and a = "[(''id'', JNum 1)]"
        and rels = "[(''address'', address_model)]" and ms = "[''address'']" and sm = True
        and de = None and a' = "[(''id'', JNum 1)]" and ms' = "[]"
        and de' = "Some user_entity"]
    by blast
  from p a b show ?thesis by blast
qed

theorem Model_represent_relations_counterexample:
  "pure_externals bookshelf_host
   \<and> attributes (this user_column_loaded_state) = attributes (this user_column_state)
   \<and> opts user_column_loaded_state = opts user_column_state
   \<and> fst (Model_represent bookshelf_host (Some user_entity_unsafe) user_column_state) =
       Inr (JObj [(''id'', JNum 1), (''address'', JStr ''Main 1'')])
   \<and> fst (Model_represent bookshelf_host (Some user_entity_unsafe) user_column_loaded_state) =
       Inl (UnsafeRelationExposure ''address'')"
  by (simp add: pure_externals_def Model_represent_def call_defs bookshelf_host_def
      safe_mode_def object_fields_def user_entity_unsafe_def city_model_def
      address_model_def user_model_column_def user_model_column_loaded_def
      user_column_state_def user_column_loaded_state_def empty_options_def)

text \<open>
  C10. \<^verbatim>\<open>Collection.present\<close> on an empty collection resolves to \<^verbatim>\<open>[]\<close> and detects and
  loads nothing. On a collection with first model \<open>m\<close>, the only path list handed to
  \<^verbatim>\<open>this.load\<close> is the one detected on \<open>m\<close> for the resolved entity (none when there is no
  entity or the detection throws): the other models have no part in it, and of the
  external functions only \<^verbatim>\<open>has\<close> of lodash, as the detection calls it.
\<close>

theorem Collection_present_first_model:
  "(models (this st) = []
      \<longrightarrow> Collection_present X options st =
            (Inr (JArr []), st\<lparr>opts := ensure_object options\<rparr>))
   \<and> (models (this st) = m # rest
      \<longrightarrow> requested (snd (Collection_present X options st)) =
            requested st @
            (case js_or (js_or (js_or (entity_opt (ensure_object options))
                                  (with_opt (ensure_object options)))
                           (using_opt (ensure_object options)))
                    (proto_defaultEntity (this st)) of
               None \<Rightarrow> []
             | Some e \<Rightarrow>
                 (case detectRelationsToLoad (lodash_has X) (Some e) (Some m) [] of
                    Inl err \<Rightarrow> []
                  | Inr paths \<Rightarrow> [paths])))"
proof (intro conjI impI)
  assume "models (this st) = []"
  then show "Collection_present X options st =
      (Inr (JArr []), st\<lparr>opts := ensure_object options\<rparr>)"
    by (simp add: Collection_present_def Let_def split: option.splits)
next
  assume m: "models (this st) = m # rest"
  have chain: "requested (snd (Collection_present_chain X e (st\<lparr>opts := o1\<rparr>))) =
      requested st @
        (case detectRelationsToLoad (lodash_has X) (Some e) (Some m) [] of
           Inl err \<Rightarrow> []
         | Inr paths \<Rightarrow> [paths])" for e o1
  proof (cases "detectRelationsToLoad (lodash_has X) (Some e) (Some m) []")
    case (Inl err)
    with m show ?thesis
      by (simp add: Collection_present_chain_def first_def)
  next
    case (Inr paths)
    show ?thesis
    proof (cases "load X (this st) paths")
      case (Inl err)
      with Inr m show ?thesis
        by (simp add: Collection_present_chain_def first_def this_load_def)
    next
      case load: (Inr c)
      obtain r st2 where r: "Collection_represent X (Some e)
          (st\<lparr>this := c, requested := requested st @ [paths],
              opts := extend_safe_false o1\<rparr>) = (r, st2)"
        by (cases "Collection_represent X (Some e)
          (st\<lparr>this := c, requested := requested st @ [paths],
              opts := extend_safe_false o1\<rparr>)")
      from requested_Collection_represent[of X "Some e"
          "st\<lparr>this := c, requested := requested st @ [paths],
              opts := extend_safe_false o1\<rparr>"] r
      have "requested st2 = requested st @ [paths]" by simp
      with Inr load m r show ?thesis
        by (simp add: Collection_present_chain_def first_def this_load_def)
    qed
  qed
  from m show "requested (snd (Collection_present X options st)) =
            requested st @
            (case js_or (js_or (js_or (entity_opt (ensure_object options))
                                  (with_opt (ensure_object options)))
                           (using_opt (ensure_object options)))
                    (proto_defaultEntity (this st)) of
               None \<Rightarrow> []
             | Some e \<Rightarrow>
                 (case detectRelationsToLoad (lodash_has X) (Some e) (Some m) [] of
                    Inl err \<Rightarrow> []
                  | Inr paths \<Rightarrow> [paths]))"
    by (simp add: Collection_present_def Let_def chain split: option.splits)
qed

theorem Collection_present_first_model_witness:
  "Collection_present bookshelf_host None no_users_state = (Inr (JArr []), no_users_state)
   \<and> requested (snd (Collection_present bookshelf_host None users_state)) =
       [[''address'', ''address.city'']]
   \<and> requested (snd (Collection_present bookshelf_host None users_other_state)) =
       [[''address'', ''address.city'']]"
proof -
  have 1: "models (this no_users_state) = []"
    by (simp add: no_users_state_def)
  have 2: "models (this users_state) = user_model_unloaded # [user_model]"
    by (simp add: users_state_def users_def)
  have 3: "models (this users_other_state) = user_model_unloaded # [blank_model, city_model]"
    by (simp add: users_other_state_def users_other_def)
  have 4: "detectRelationsToLoad (lodash_has bookshelf_host) (Some user_entity)
        (Some user_model_unloaded) [] =
      Inr [''address'', ''address.city'']"
    by (simp add: own_key_def city_entity_def address_entity_def user_entity_def city_model_def
      address_model_def user_model_def user_model_unloaded_def blank_model_def
      users_def bookshelf_host_def safe_mode_def object_fields_def
      users_state_def users_other_def users_other_state_def no_users_state_def
      empty_options_def ensure_object_def)
  have 5: "js_or (js_or (js_or (entity_opt (ensure_object None)) (with_opt (ensure_object None)))
        (using_opt (ensure_object None))) (proto_defaultEntity (this users_state)) =
      Some user_entity"
    by (simp add: js_or_def ensure_object_def users_state_def users_def empty_options_def)
  have 6: "js_or (js_or (js_or (entity_opt (ensure_object None)) (with_opt (ensure_object None)))
        (using_opt (ensure_object None))) (proto_defaultEntity (this users_other_state)) =
      Some user_entity"
    by (simp add: js_or_def ensure_object_def users_other_state_def users_other_def
        empty_options_def)
  have 7: "requested users_state = [] \<and> requested users_other_state = []"
    by (simp add: users_state_def users_other_state_def)
  have 8: "no_users_state\<lparr>opts := ensure_object None\<rparr> = no_users_state"
    by (simp add: no_users_state_def ensure_object_def)
  have a: "Collection_present bookshelf_host None no_users_state =
      (Inr (JArr []), no_users_state)"
    using 1 8
      Collection_present_first_model[where st = no_users_state and X = bookshelf_host
        and options = None]
    by simp
  have b: "requested (snd (Collection_present bookshelf_host None users_state)) =
       [[''address'', ''address.city'']]"
    using 2 4 5 7
      Collection_present_first_model[where st = users_state and m = user_model_unloaded
        and rest = "[user_model]" and X = bookshelf_host and options = None]
    by simp
  have c: "requested (snd (Collection_present bookshelf_host None users_other_state)) =
       [[''address'', ''address.city'']]"
    using 3 4 6 7
      Collection_present_first_model[where st = users_other_state
        and m = user_model_unloaded and rest = "[blank_model, city_model]"
        and X = bookshelf_host and options = None]
    by simp
  from a b c show ?thesis by blast
qed

end
